theory Spec2Isabelle
  imports Complex_Main "HOL-Library.Word" "HOL-Library.Signed_Division"
begin

section \<open>Deckard's Helper: MIDI aftertouch remapper and ribbon controller\<close>

text \<open>
  A shallow embedding of \<^verbatim>\<open>DeckHelper.ino\<close>. The sketch keeps its state in global
  variables; here they are the fields of one record that every function takes and returns.
  Calls on the MIDI interface and on the LED pin are collected, in program order, in a list
  of effects returned beside the new state.

  Number model. \<^verbatim>\<open>byte\<close> is an 8-bit word, \<^verbatim>\<open>unsigned long\<close> (the
  millisecond clock) a 32-bit word with wrap-around, \<^verbatim>\<open>int\<close> an integer (the
  values the sketch computes stay far inside 32 bits: \<^verbatim>\<open>loopCount\<close> is below 20 and
  the bend is twice a difference of 12-bit readings). A \<^verbatim>\<open>float\<close> variable holds a
  real number, and every floating-point operation of the sketch (the conversions, the
  moving average on line 103, the subtractions on lines 115 and 156) is the exact operation
  followed by IEEE 754 rounding to the nearest value of the format, ties to even.
  Comparisons, \<^verbatim>\<open>abs\<close> and assignments are exact.
\<close>

subsection \<open>Data\<close>

type_synonym byte = "8 word"

text \<open>
  The message kinds of the MIDI library (\<^verbatim>\<open>MIDI_CJAT.h\<close>, not part of the sources).
  The sketch names two of its enumerators; \<open>OtherType\<close> stands for every other one, tagged
  by its status byte.
\<close>

datatype MidiType = AfterTouchPoly | AfterTouchChannel | OtherType byte

text \<open>
  What the sketch does to the outside world: \<^verbatim>\<open>midiIO.send(type, data1, data2, channel)\<close>,
  \<^verbatim>\<open>midiIO.sendPitchBend(value, channel)\<close> and \<^verbatim>\<open>digitalWrite(pin, level)\<close>.
\<close>

datatype effect =
    Send MidiType byte byte byte
  | SendPitchBend int byte
  | DigitalWrite int bool

text \<open>
  \<^verbatim>\<open>struct AfterTouchMessage\<close>. The fields carry the prefix \<open>at_\<close> because
  \<open>note\<close> is a keyword of the proof language.
\<close>

record AfterTouchMessage =
  at_note :: byte
  at_pressure :: byte
  at_channel :: byte

definition at_clear :: "AfterTouchMessage \<Rightarrow> AfterTouchMessage" where
  "at_clear m = m\<lparr>at_note := 0, at_pressure := 0, at_channel := 0\<rparr>"

definition at_set :: "byte \<Rightarrow> byte \<Rightarrow> byte \<Rightarrow> AfterTouchMessage \<Rightarrow> AfterTouchMessage" where
  "at_set n p c m = m\<lparr>at_note := n, at_pressure := p, at_channel := c\<rparr>"

text \<open>
  Modelled from the spec: \<^verbatim>\<open>NoteBuffer.h\<close> (class \<^verbatim>\<open>NotePriorityBuffer\<close>) is not
  among the sources. The spec describes it as the collection of held notes under the policy
  "most recently pressed held note wins": \<^verbatim>\<open>noteOn\<close> records a note as held and as the
  most recently pressed, \<^verbatim>\<open>noteOff\<close> removes it, and \<^verbatim>\<open>curNote\<close> returns the most
  recently pressed note that is still held, or a sentinel "no note" value when nothing is
  held. The held notes are kept most recent first. The value of the sentinel is not given
  anywhere, so it is a field fixed when the buffer is set up.
\<close>

record NotePriorityBuffer =
  held :: "byte list"
  no_note :: byte

definition buffer_setup :: "byte \<Rightarrow> NotePriorityBuffer" where
  "buffer_setup nn = \<lparr>held = [], no_note = nn\<rparr>"

definition noteOn :: "byte \<Rightarrow> byte \<Rightarrow> NotePriorityBuffer \<Rightarrow> NotePriorityBuffer" where
  "noteOn n velocity b = b\<lparr>held := n # removeAll n (held b)\<rparr>"

definition noteOff :: "byte \<Rightarrow> NotePriorityBuffer \<Rightarrow> NotePriorityBuffer" where
  "noteOff n b = b\<lparr>held := removeAll n (held b)\<rparr>"

definition curNote :: "NotePriorityBuffer \<Rightarrow> byte" where
  "curNote b = (case held b of [] \<Rightarrow> no_note b | n # _ \<Rightarrow> n)"

text \<open>The global variables of the sketch, and the function-local static \<^verbatim>\<open>lastBend\<close>.\<close>

record state =
  midiNoteBuffer :: NotePriorityBuffer
  lastAfterTouchMessage :: AfterTouchMessage
  baseline :: real
  accumulator :: real
  sample :: "real list"
  currentValue :: real
  loopCount :: int
  lastMessage :: "32 word"
  lastChannelUsed :: byte
  lastBend :: int

definition slope_xsize :: int where
  "slope_xsize = 20"

definition slope_ysize :: int where
  "slope_ysize = 1"

definition baseline_limit :: int where
  "baseline_limit = 13"

definition led_pin :: int where
  "led_pin = 13"

definition HIGH :: bool where
  "HIGH = True"

definition LOW :: bool where
  "LOW = False"

subsection \<open>The MIDI callbacks\<close>

text \<open>\<^verbatim>\<open>MIDINoteOffHandler\<close>, lines 201 to 213.\<close>

definition MIDINoteOffHandler :: "byte \<Rightarrow> byte \<Rightarrow> byte \<Rightarrow> state \<Rightarrow> state \<times> effect list" where
  "MIDINoteOffHandler channel n velocity s =
    (let s1 = s\<lparr>lastChannelUsed := channel\<rparr>;
         m = lastAfterTouchMessage s1;
         (s2, out) =
           (if at_note m = n \<and> at_pressure m \<noteq> 0
            then (s1\<lparr>lastAfterTouchMessage := at_clear m\<rparr>,
                  [Send AfterTouchPoly (at_note m) 0 (at_channel m)])
            else (s1, []))
     in (s2\<lparr>midiNoteBuffer := noteOff n (midiNoteBuffer s2)\<rparr>, out))"

text \<open>\<^verbatim>\<open>MIDINoteOnHandler\<close>, lines 178 to 199.\<close>

definition MIDINoteOnHandler :: "byte \<Rightarrow> byte \<Rightarrow> byte \<Rightarrow> state \<Rightarrow> state \<times> effect list" where
  "MIDINoteOnHandler channel n velocity s =
    (let s1 = s\<lparr>lastChannelUsed := channel\<rparr>
     in if velocity = 0 then MIDINoteOffHandler channel n velocity s1
        else
          (let m = lastAfterTouchMessage s1;
               (s2, out) =
                 (if at_note m \<noteq> n \<and> at_pressure m \<noteq> 0
                  then (s1\<lparr>lastAfterTouchMessage := at_clear m\<rparr>,
                        [Send AfterTouchPoly (at_note m) 0 (at_channel m)])
                  else (s1, []))
           in (s2\<lparr>midiNoteBuffer := noteOn n velocity (midiNoteBuffer s2)\<rparr>, out)))"

text \<open>\<^verbatim>\<open>MIDIThruHandler\<close>, lines 215 to 229.\<close>

definition MIDIThruHandler :: "MidiType \<Rightarrow> byte \<Rightarrow> byte \<Rightarrow> byte \<Rightarrow> state \<Rightarrow> state \<times> effect list" where
  "MIDIThruHandler message data1 data2 channel s =
    (if message = AfterTouchChannel
     then
       (let n = curNote (midiNoteBuffer s);
            pressure = data1
        in (s\<lparr>lastAfterTouchMessage := at_set n pressure channel (lastAfterTouchMessage s)\<rparr>,
            [Send AfterTouchPoly n pressure channel]))
     else (s, [Send message data1 data2 channel]))"

text \<open>
  \<^verbatim>\<open>midiIO.read()\<close> runs inside the MIDI library, which calls the three handlers that
  \<^verbatim>\<open>setup\<close> registered. Which handlers it calls, and with which arguments, depends on the
  bytes on the wire and on the library; the model takes the calls of one \<^verbatim>\<open>read\<close> as
  input and runs them in order.
\<close>

datatype callback =
    HandleNoteOn byte byte byte
  | HandleNoteOff byte byte byte
  | HandleThru MidiType byte byte byte

fun dispatch :: "callback \<Rightarrow> state \<Rightarrow> state \<times> effect list" where
  "dispatch (HandleNoteOn channel n velocity) s = MIDINoteOnHandler channel n velocity s"
| "dispatch (HandleNoteOff channel n velocity) s = MIDINoteOffHandler channel n velocity s"
| "dispatch (HandleThru message data1 data2 channel) s = MIDIThruHandler message data1 data2 channel s"

fun midi_read :: "callback list \<Rightarrow> state \<Rightarrow> state \<times> effect list" where
  "midi_read [] s = (s, [])"
| "midi_read (c # cs) s =
    (let (s1, out1) = dispatch c s;
         (s2, out2) = midi_read cs s1
     in (s2, out1 @ out2))"

subsection \<open>Floating point\<close>

text \<open>
  Rounding to a binary floating-point format with \<open>p\<close> significant bits and least
  exponent \<open>emin\<close> (24 and -126 for \<^verbatim>\<open>float\<close>, 53 and -1022 for \<^verbatim>\<open>double\<close>).
  For \<open>x > 0\<close>, \<open>exponent_of x\<close> is the \<open>e\<close> with \<open>2 ^ e \<le> x < 2 ^ (e + 1)\<close>; the
  values of the format near \<open>x\<close> are the multiples of \<open>2 ^ (max e emin - (p - 1))\<close>
  (below \<open>2 ^ emin\<close> they are the subnormal numbers), and \<open>x\<close> goes to the nearest of
  them, to the even one when two are equally near. Overflow to infinity is left out: the
  values of the sketch are bounded by the readings of the converter.
\<close>

definition pow2 :: "int \<Rightarrow> real" where
  "pow2 k = (if 0 \<le> k then 2 ^ nat k else 1 / 2 ^ nat (- k))"

function ilog2 :: "int \<Rightarrow> int" where
  "ilog2 n = (if n \<le> 1 then 0 else 1 + ilog2 (n div 2))"
  by pat_completeness auto
termination
  by (relation "measure nat") auto

declare ilog2.simps [simp del]

definition clog2 :: "int \<Rightarrow> int" where
  "clog2 n = (if n \<le> 1 then 0 else 1 + ilog2 (n - 1))"

definition exponent_of :: "real \<Rightarrow> int" where
  "exponent_of x = (if 1 \<le> x then ilog2 \<lfloor>x\<rfloor> else - clog2 \<lceil>1 / x\<rceil>)"

definition round_even :: "real \<Rightarrow> int" where
  "round_even x =
    (let f = \<lfloor>x\<rfloor>; d = x - real_of_int f
     in if d < 1 / 2 then f else if 1 / 2 < d then f + 1 else if even f then f else f + 1)"

definition fl :: "nat \<Rightarrow> int \<Rightarrow> real \<Rightarrow> real" where
  "fl p emin x =
    (if x = 0 then 0
     else
       (let q = pow2 (max (exponent_of \<bar>x\<bar>) emin - (int p - 1))
        in real_of_int (round_even (x / q)) * q))"

definition fl32 :: "real \<Rightarrow> real" where
  "fl32 x = fl 24 (- 126) x"

definition fl64 :: "real \<Rightarrow> real" where
  "fl64 x = fl 53 (- 1022) x"

text \<open>
  The literals \<^verbatim>\<open>0.95\<close> and \<^verbatim>\<open>0.05\<close> on line 103 are \<^verbatim>\<open>double\<close> in C++, which
  makes the products and the sum \<^verbatim>\<open>double\<close> operations, rounded to \<^verbatim>\<open>float\<close> by the
  assignment. Built with \<^verbatim>\<open>-fsingle-precision-constant\<close> (an option of the Teensy tool
  chain) the literals are \<^verbatim>\<open>float\<close> and so is the whole expression. The sources do not
  say how the sketch is built, so the build is a parameter of the model.
\<close>

datatype constants = DoubleConstants | SingleConstants

definition average :: "constants \<Rightarrow> real \<Rightarrow> real \<Rightarrow> real" where
  "average b acc sensorReading =
    (case b of
       DoubleConstants \<Rightarrow>
         fl32 (fl64 (fl64 (fl64 0.95 * acc) + fl64 (fl64 0.05 * sensorReading)))
     | SingleConstants \<Rightarrow>
         fl32 (fl32 (fl32 0.95 * acc) + fl32 (fl32 0.05 * sensorReading)))"

text \<open>
  Conversion of a \<^verbatim>\<open>float\<close> to \<^verbatim>\<open>int\<close> discards the fractional part
  (rounds towards zero).
\<close>

definition float_to_int :: "real \<Rightarrow> int" where
  "float_to_int x = (if 0 \<le> x then \<lfloor>x\<rfloor> else \<lceil>x\<rceil>)"

text \<open>
  Line 156, \<^verbatim>\<open>int bend = 2 * (currentValue - baseline)\<close>: a \<^verbatim>\<open>float\<close> subtraction,
  a \<^verbatim>\<open>float\<close> product with 2 and the conversion to \<^verbatim>\<open>int\<close>.
\<close>

definition bend_of :: "real \<Rightarrow> real \<Rightarrow> int" where
  "bend_of cv bl = float_to_int (fl32 (2 * fl32 (cv - bl)))"

subsection \<open>The ribbon\<close>

text \<open>
  Reading or writing \<^verbatim>\<open>sample\<close> outside its bounds is undefined in the source;
  the model makes it a fault, so that a run that returns a state has made no such access.
\<close>

datatype fault = OutOfBounds

definition in_bounds :: "int \<Rightarrow> 'a list \<Rightarrow> bool" where
  "in_bounds i xs = (0 \<le> i \<and> i < int (length xs))"

text \<open>
  What one pass of \<^verbatim>\<open>loop\<close> reads from its environment: the handler calls made by
  \<^verbatim>\<open>midiIO.read()\<close>, the value of \<^verbatim>\<open>analogRead(A0)\<close>, and the two readings of
  \<^verbatim>\<open>millis()\<close> on lines 160 and 164.
\<close>

record tick =
  callbacks :: "callback list"
  analogRead :: int
  millis1 :: "32 word"
  millis2 :: "32 word"

text \<open>
  Lines 102 to 122: the moving average, the ring buffer and the slope filter. The reading
  and \<^verbatim>\<open>slope_ysize\<close> are converted to \<^verbatim>\<open>float\<close>; the difference on line 115 is
  a \<^verbatim>\<open>float\<close> subtraction. The operator \<^verbatim>\<open>%\<close> of the source truncates towards
  zero (\<open>smod\<close>). \<^verbatim>\<open>abs\<close> is the Arduino macro, which keeps the type of its argument.
\<close>

definition slope_filter :: "constants \<Rightarrow> int \<Rightarrow> state \<Rightarrow> fault + state" where
  "slope_filter b reading s =
    (let sensorReading = fl32 (real_of_int reading);
         acc = average b (accumulator s) sensorReading;
         s1 = s\<lparr>accumulator := acc\<rparr>;
         w = loopCount s1 smod slope_xsize;
         r = (loopCount s1 + 1) smod slope_xsize
     in if in_bounds w (sample s1)
        then
          (let s2 = s1\<lparr>sample := (sample s1)[nat w := acc]\<rparr>
           in if in_bounds r (sample s2)
              then
                (let earlierSample = sample s2 ! nat r
                 in if \<bar>fl32 (acc - earlierSample)\<bar> < fl32 (real_of_int slope_ysize)
                    then Inr (s2\<lparr>currentValue := acc\<rparr>)
                    else Inr s2)
              else Inl OutOfBounds)
        else Inl OutOfBounds)"

text \<open>
  Lines 129 to 171: the baseline and the pitch bend. \<^verbatim>\<open>baseline_limit\<close> is converted
  to \<^verbatim>\<open>float\<close> in each comparison.
\<close>

definition ribbon :: "32 word \<Rightarrow> 32 word \<Rightarrow> state \<Rightarrow> state \<times> effect list" where
  "ribbon now1 now2 s =
    (if baseline s < fl32 (real_of_int baseline_limit)
     then
       (if currentValue s > fl32 (real_of_int baseline_limit)
        then (s\<lparr>baseline := currentValue s\<rparr>,
              [DigitalWrite led_pin HIGH, SendPitchBend 0 (lastChannelUsed s),
               DigitalWrite led_pin LOW])
        else (s, []))
     else
       (if currentValue s \<le> fl32 (real_of_int baseline_limit)
        then (s\<lparr>baseline := 0\<rparr>,
              [DigitalWrite led_pin HIGH, SendPitchBend 0 (lastChannelUsed s),
               DigitalWrite led_pin LOW])
        else
          (let bend = bend_of (currentValue s) (baseline s)
           in if bend \<noteq> lastBend s
              then
                (if now1 - lastMessage s > 10
                 then (s\<lparr>lastMessage := now2, lastBend := bend\<rparr>,
                       [DigitalWrite led_pin HIGH, SendPitchBend bend (lastChannelUsed s),
                        DigitalWrite led_pin LOW])
                 else (s, []))
              else (s, []))))"

text \<open>Lines 173 to 175.\<close>

definition next_loopCount :: "state \<Rightarrow> state" where
  "next_loopCount s =
    (let s1 = s\<lparr>loopCount := loopCount s + 1\<rparr>
     in if loopCount s1 smod slope_xsize = 0 then s1\<lparr>loopCount := 0\<rparr> else s1)"

text \<open>\<^verbatim>\<open>loop\<close>, lines 93 to 176, for a build \<open>b\<close>.\<close>

definition loop :: "constants \<Rightarrow> tick \<Rightarrow> state \<Rightarrow> fault + (state \<times> effect list)" where
  "loop b t s =
    (let (s1, out1) = midi_read (callbacks t) s
     in case slope_filter b (analogRead t) s1 of
          Inl e \<Rightarrow> Inl e
        | Inr s2 \<Rightarrow>
            (let (s3, out2) = ribbon (millis1 t) (millis2 t) s2
             in Inr (next_loopCount s3, out1 @ out2)))"

text \<open>
  \<^verbatim>\<open>setup\<close>, lines 71 to 91, together with the initialisers of the globals (lines 57
  to 69) and of the static \<^verbatim>\<open>lastBend\<close> (line 155). Its arguments are the sentinel of
  the note buffer and the first value of \<^verbatim>\<open>analogRead(A0)\<close>, which the assignment on
  line 87 converts to \<^verbatim>\<open>float\<close>. The \<^verbatim>\<open>for\<close> loop stores it in each of the
  \<^verbatim>\<open>slope_xsize\<close> cells of \<^verbatim>\<open>sample\<close>.
  (The name \<open>setup\<close> itself is a command of the theory language.)
\<close>

definition setup_sketch :: "byte \<Rightarrow> int \<Rightarrow> state" where
  "setup_sketch nn reading =
    (let acc = fl32 (real_of_int reading)
     in \<lparr>midiNoteBuffer = buffer_setup nn,
         lastAfterTouchMessage = at_clear \<lparr>at_note = 0, at_pressure = 0, at_channel = 0\<rparr>,
         baseline = 0,
         accumulator = acc,
         sample = replicate (nat slope_xsize) acc,
         currentValue = acc,
         loopCount = 0,
         lastMessage = 0,
         lastChannelUsed = 0,
         lastBend = - 1\<rparr>)"

text \<open>The device: \<^verbatim>\<open>setup\<close> once, then \<^verbatim>\<open>loop\<close> for ever. \<open>run\<close> is a finite prefix.\<close>

fun run :: "constants \<Rightarrow> tick list \<Rightarrow> state \<Rightarrow> fault + (state \<times> effect list)" where
  "run b [] s = Inr (s, [])"
| "run b (t # ts) s =
    (case loop b t s of
       Inl e \<Rightarrow> Inl e
     | Inr (s1, out1) \<Rightarrow>
         (case run b ts s1 of
            Inl e \<Rightarrow> Inl e
          | Inr (s2, out2) \<Rightarrow> Inr (s2, out1 @ out2)))"

definition state_after :: "constants \<Rightarrow> tick list \<Rightarrow> state \<Rightarrow> state option" where
  "state_after b ts s = (case run b ts s of Inl e \<Rightarrow> None | Inr (s1, out) \<Rightarrow> Some s1)"

subsection \<open>Concrete inputs used by the examples\<close>

text \<open>A tick without MIDI traffic: a sensor reading and one clock value for both readings.\<close>

definition tick_at :: "int \<Rightarrow> 32 word \<Rightarrow> tick" where
  "tick_at reading now = \<lparr>callbacks = [], analogRead = reading, millis1 = now, millis2 = now\<rparr>"

text \<open>Note 60 pressed on channel 1, then channel aftertouch with pressure 80.\<close>

definition example_pressed :: state where
  "example_pressed =
     fst (MIDIThruHandler AfterTouchChannel 80 0 1
       (fst (MIDINoteOnHandler 1 60 100 (setup_sketch 255 0))))"

text \<open>
  The state after \<open>setup\<close> reads \<open>r\<close>, written out (the 12-bit readings are \<^verbatim>\<open>float\<close>
  values as they are).
\<close>

definition powered_up :: "real \<Rightarrow> state" where
  "powered_up r =
    \<lparr>midiNoteBuffer = \<lparr>held = [], no_note = 255\<rparr>,
     lastAfterTouchMessage = \<lparr>at_note = 0, at_pressure = 0, at_channel = 0\<rparr>,
     baseline = 0, accumulator = r, sample = replicate 20 r, currentValue = r,
     loopCount = 0, lastMessage = 0, lastChannelUsed = 0, lastBend = - 1\<rparr>"

text \<open>
  A finger already on the ribbon at power-up (every reading 100). The first tick at 1000 ms
  is the contact start (\<open>example_touched\<close>); a second tick at 1001 ms sends the first bend,
  of value 0 (\<open>example_bent\<close>). From there a reading of 110 moves the accumulator to 100.5
  and the bend to 1: \<open>example_bent_late\<close> is the state after such a tick that sends
  nothing, \<open>example_bent_sent\<close> after one that sends the bend at 1012 ms.
  \<open>example_early_bend\<close> follows \<open>example_touched\<close> when the second tick reads 110.
  The values are the same in both builds.
\<close>

definition example_touched :: state where
  "example_touched = (powered_up 100)\<lparr>baseline := 100,
      sample := (replicate 20 100)[0 := 100], loopCount := 1\<rparr>"

definition example_bent :: state where
  "example_bent = example_touched\<lparr>sample := (replicate 20 100)[0 := 100, 1 := 100],
      loopCount := 2, lastMessage := 1001, lastBend := 0\<rparr>"

definition example_bent_late :: state where
  "example_bent_late = example_bent\<lparr>accumulator := 100.5, currentValue := 100.5,
      sample := (replicate 20 100)[0 := 100, 1 := 100, 2 := 100.5], loopCount := 3\<rparr>"

definition example_bent_sent :: state where
  "example_bent_sent = example_bent_late\<lparr>lastMessage := 1012, lastBend := 1\<rparr>"

definition example_early_bend :: state where
  "example_early_bend = example_touched\<lparr>accumulator := 100.5, currentValue := 100.5,
      sample := (replicate 20 100)[0 := 100, 1 := 100.5], loopCount := 2,
      lastMessage := 1001, lastBend := 1\<rparr>"

text \<open>
  In contact with the filtered value just above the limit, and the state after a tick that
  reads 1 and takes the value below it.
\<close>

definition example_lifting :: state where
  "example_lifting = (powered_up 13.5)\<lparr>baseline := 20, lastMessage := 1001,
      lastChannelUsed := 1, lastBend := - 13\<rparr>"

definition example_lifted :: state where
  "example_lifted = example_lifting\<lparr>baseline := 0, accumulator := 12.875,
      sample := (replicate 20 13.5)[0 := 12.875], currentValue := 12.875, loopCount := 1\<rparr>"

text \<open>
  Not in contact, the last bend sent was 1, and the filtered value stands at 100; then the
  contact start, and a move of the accumulator to 100.5.
\<close>

definition example_retouch :: state where
  "example_retouch = (powered_up 100)\<lparr>lastMessage := 1001, lastChannelUsed := 1,
      lastBend := 1\<rparr>"

definition example_retouched :: state where
  "example_retouched = example_retouch\<lparr>baseline := 100,
      sample := (replicate 20 100)[0 := 100], loopCount := 1\<rparr>"

definition example_retouched_moved :: state where
  "example_retouched_moved = example_retouched\<lparr>accumulator := 100.5, currentValue := 100.5,
      sample := (replicate 20 100)[0 := 100, 1 := 100.5], loopCount := 2\<rparr>"


definition example_jump1 :: state where
  "example_jump1 = (powered_up 0)\<lparr>accumulator := 2,
      sample := (replicate 20 0)[0 := 2], loopCount := 1\<rparr>"


text \<open>
  Power-up with the ribbon untouched, then twenty readings between 0 and 14, one run for
  each build. The first tick takes the accumulator to the \<^verbatim>\<open>float\<close> nearest to 0.4,
  the twentieth to the one just below 1.4. \<open>slow_rise_double\<close> and \<open>slow_rise_single\<close>
  are the states after nineteen ticks, \<open>slow_rise_end_double\<close> and
  \<open>slow_rise_end_single\<close> after the twentieth.
\<close>

definition quiet_ticks :: "int list \<Rightarrow> tick list" where
  "quiet_ticks rs = map (\<lambda>r. tick_at r 0) rs"

definition slow_rise_first :: state where
  "slow_rise_first = (powered_up 0)\<lparr>accumulator := 13421773 / 33554432,
      sample := (replicate 20 0)[0 := 13421773 / 33554432],
      currentValue := 13421773 / 33554432, loopCount := 1\<rparr>"

definition slow_rise_double :: state where
  "slow_rise_double = (powered_up 0)\<lparr>accumulator := 1324517 / 1048576,
      sample := (replicate 20 0)
        [0 := 13421773 / 33554432, 1 := 3187671 / 8388608, 2 := 14445183 / 16777216,
         3 := 3430731 / 4194304, 4 := 13875639 / 16777216, 5 := 7010359 / 8388608,
         6 := 14158543 / 16777216, 7 := 14289477 / 16777216, 8 := 1801733 / 2097152,
         9 := 227063 / 262144, 10 := 14644291 / 16777216, 11 := 14750937 / 16777216,
         12 := 14852251 / 16777216, 13 := 14948499 / 16777216, 14 := 15039935 / 16777216,
         15 := 15126799 / 16777216, 16 := 1901165 / 2097152, 17 := 1007911 / 1048576,
         18 := 1324517 / 1048576],
      currentValue := 1007911 / 1048576, loopCount := 19\<rparr>"

definition slow_rise_end_double :: state where
  "slow_rise_end_double = slow_rise_double\<lparr>accumulator := 11744051 / 8388608,
      sample := (replicate 20 0)
        [0 := 13421773 / 33554432, 1 := 3187671 / 8388608, 2 := 14445183 / 16777216,
         3 := 3430731 / 4194304, 4 := 13875639 / 16777216, 5 := 7010359 / 8388608,
         6 := 14158543 / 16777216, 7 := 14289477 / 16777216, 8 := 1801733 / 2097152,
         9 := 227063 / 262144, 10 := 14644291 / 16777216, 11 := 14750937 / 16777216,
         12 := 14852251 / 16777216, 13 := 14948499 / 16777216, 14 := 15039935 / 16777216,
         15 := 15126799 / 16777216, 16 := 1901165 / 2097152, 17 := 1007911 / 1048576,
         18 := 1324517 / 1048576, 19 := 11744051 / 8388608],
      loopCount := 0\<rparr>"

definition slow_rise_single :: state where
  "slow_rise_single = (powered_up 0)\<lparr>accumulator := 5960327 / 4194304,
      sample := (replicate 20 0)
        [0 := 13421773 / 33554432, 1 := 2222981 / 4194304, 2 := 5047845 / 4194304,
         3 := 6263459 / 4194304, 4 := 6160001 / 4194304, 5 := 1515429 / 1048576,
         6 := 5968345 / 4194304, 7 := 11759285 / 8388608, 8 := 11590751 / 8388608,
         9 := 11430643 / 8388608, 10 := 11278541 / 8388608, 11 := 2783511 / 2097152,
         12 := 2749193 / 2097152, 13 := 10866363 / 8388608, 14 := 10742475 / 8388608,
         15 := 10624781 / 8388608, 16 := 2628243 / 2097152, 17 := 11665045 / 8388608,
         18 := 5960327 / 4194304],
      currentValue := 2222981 / 4194304, loopCount := 19\<rparr>"

definition slow_rise_end_single :: state where
  "slow_rise_end_single = slow_rise_single\<lparr>accumulator := 11744051 / 8388608,
      sample := (replicate 20 0)
        [0 := 13421773 / 33554432, 1 := 2222981 / 4194304, 2 := 5047845 / 4194304,
         3 := 6263459 / 4194304, 4 := 6160001 / 4194304, 5 := 1515429 / 1048576,
         6 := 5968345 / 4194304, 7 := 11759285 / 8388608, 8 := 11590751 / 8388608,
         9 := 11430643 / 8388608, 10 := 11278541 / 8388608, 11 := 2783511 / 2097152,
         12 := 2749193 / 2097152, 13 := 10866363 / 8388608, 14 := 10742475 / 8388608,
         15 := 10624781 / 8388608, 16 := 2628243 / 2097152, 17 := 11665045 / 8388608,
         18 := 5960327 / 4194304, 19 := 11744051 / 8388608],
      loopCount := 0\<rparr>"

section \<open>The aftertouch remapper\<close>

lemma example_pressed_msg:
  "lastAfterTouchMessage example_pressed = \<lparr>at_note = 60, at_pressure = 80, at_channel = 1\<rparr>"
  by (simp add: example_pressed_def MIDIThruHandler_def MIDINoteOnHandler_def setup_sketch_def
      buffer_setup_def noteOn_def curNote_def at_set_def at_clear_def Let_def)

text \<open>
  C1. In every state in which the recorded aftertouch message holds nonzero pressure
  (hence after every sequence of events that leads to such a state): a note-off for the
  recorded note, and a note-on for a different note, each emit exactly one message, the
  poly aftertouch with pressure 0 for the recorded note and channel, and leave the recorded
  message cleared. It is the only message the handler emits, so nothing is emitted before
  it; the note buffer is updated as well. A note-on with velocity 0 is a note-off (C7):
  for the recorded note it is a release and does the same, and the superseding note-on is
  one with nonzero velocity.
\<close>

theorem pressure_cleared_on_release_or_supersede:
  "at_pressure (lastAfterTouchMessage s) \<noteq> 0 \<Longrightarrow>
   (at_note (lastAfterTouchMessage s) = n \<longrightarrow>
      MIDINoteOffHandler ch n v s =
        (s\<lparr>midiNoteBuffer := noteOff n (midiNoteBuffer s),
           lastAfterTouchMessage := \<lparr>at_note = 0, at_pressure = 0, at_channel = 0\<rparr>,
           lastChannelUsed := ch\<rparr>,
         [Send AfterTouchPoly n 0 (at_channel (lastAfterTouchMessage s))])
      \<and> MIDINoteOnHandler ch n 0 s = MIDINoteOffHandler ch n 0 s)
   \<and> (at_note (lastAfterTouchMessage s) \<noteq> n \<and> v \<noteq> 0 \<longrightarrow>
      MIDINoteOnHandler ch n v s =
        (s\<lparr>midiNoteBuffer := noteOn n v (midiNoteBuffer s),
           lastAfterTouchMessage := \<lparr>at_note = 0, at_pressure = 0, at_channel = 0\<rparr>,
           lastChannelUsed := ch\<rparr>,
         [Send AfterTouchPoly (at_note (lastAfterTouchMessage s)) 0
            (at_channel (lastAfterTouchMessage s))]))"
  by (simp add: MIDINoteOnHandler_def MIDINoteOffHandler_def at_clear_def Let_def)

theorem pressure_cleared_witness:
  "at_pressure (lastAfterTouchMessage example_pressed) \<noteq> 0
   \<and> at_note (lastAfterTouchMessage example_pressed) = 60
   \<and> snd (MIDINoteOffHandler 1 60 0 example_pressed) = [Send AfterTouchPoly 60 0 1]
   \<and> lastAfterTouchMessage (fst (MIDINoteOffHandler 1 60 0 example_pressed)) =
       \<lparr>at_note = 0, at_pressure = 0, at_channel = 0\<rparr>
   \<and> at_note (lastAfterTouchMessage example_pressed) \<noteq> 64
   \<and> snd (MIDINoteOnHandler 2 64 100 example_pressed) = [Send AfterTouchPoly 60 0 1]
   \<and> lastAfterTouchMessage (fst (MIDINoteOnHandler 2 64 100 example_pressed)) =
       \<lparr>at_note = 0, at_pressure = 0, at_channel = 0\<rparr>"
  using pressure_cleared_on_release_or_supersede [of example_pressed 60 1 0]
    pressure_cleared_on_release_or_supersede [of example_pressed 64 2 100]
  by (simp add: example_pressed_msg)

text \<open>
  C2. A channel aftertouch with pressure \<open>p\<close> on channel \<open>c\<close> emits exactly one
  message, the poly aftertouch for the current note of the note buffer with pressure \<open>p\<close>
  on channel \<open>c\<close>, and records these three values as the active aftertouch message. The
  second equation is the case of an empty buffer: the message goes to the sentinel note and
  is not dropped.
\<close>

theorem channel_aftertouch_to_poly:
  "MIDIThruHandler AfterTouchChannel p d2 c s =
     (s\<lparr>lastAfterTouchMessage :=
          \<lparr>at_note = curNote (midiNoteBuffer s), at_pressure = p, at_channel = c\<rparr>\<rparr>,
      [Send AfterTouchPoly (curNote (midiNoteBuffer s)) p c])
   \<and> MIDIThruHandler AfterTouchChannel p d2 c (s\<lparr>midiNoteBuffer := b\<lparr>held := []\<rparr>\<rparr>) =
     (s\<lparr>midiNoteBuffer := b\<lparr>held := []\<rparr>,
        lastAfterTouchMessage := \<lparr>at_note = no_note b, at_pressure = p, at_channel = c\<rparr>\<rparr>,
      [Send AfterTouchPoly (no_note b) p c])"
  by (simp add: MIDIThruHandler_def at_set_def curNote_def Let_def)

text \<open>
  C7. For every channel and note, the note-on handler called with velocity 0 returns the
  same state and the same emitted messages as the note-off handler called with velocity 0.
\<close>

theorem velocity_zero_note_on_is_note_off:
  "MIDINoteOnHandler ch n 0 s = MIDINoteOffHandler ch n 0 s"
  by (simp add: MIDINoteOnHandler_def MIDINoteOffHandler_def Let_def)

section \<open>The ribbon\<close>

subsection \<open>Rounding, evaluated\<close>

lemmas fl_eval = fl32_def fl64_def fl_def pow2_def exponent_of_def clog2_def round_even_def
  ilog2.simps average_def bend_of_def float_to_int_def Let_def

text \<open>The integer constants of the sketch are \<^verbatim>\<open>float\<close> values as they are.\<close>

lemma float_limit: "fl32 (real_of_int baseline_limit) = real_of_int baseline_limit"
  by (simp add: baseline_limit_def fl_eval)

lemma float_13: "fl32 13 = 13"
  by (simp add: fl_eval)

lemma float_ysize: "fl32 (real_of_int slope_ysize) = 1"
  by (simp add: slope_ysize_def fl_eval)

text \<open>
  Rounding at work: \<open>1 - 2 ^ - 25\<close> lies half way between two \<^verbatim>\<open>float\<close> values and
  goes to the even one, 1; 0.1 is not a \<^verbatim>\<open>float\<close> value; and a bend that exact
  arithmetic would make -5789 is -5790, since the difference rounds to -2895.
\<close>

lemma rounding_examples:
  "fl32 (1 - 1 / 2 ^ 25) = 1"
  "fl32 (1 / 10) = 13421773 / 134217728"
  "fl32 (870.8499755859375 - 3765.849853515625) = - 2895"
  "bend_of 870.8499755859375 3765.849853515625 = - 5790"
  "float_to_int (2 * (870.8499755859375 - 3765.849853515625)) = - 5789"
  by (simp_all add: fl_eval)

subsection \<open>The exponent\<close>

text \<open>
  \<open>ilog2 n\<close> is the position of the leading bit of \<open>n\<close>, and \<open>exponent_of x\<close> the
  exponent of the binade of \<open>x\<close>: \<open>2 ^ e \<le> x < 2 ^ (e + 1)\<close>, for every positive real.
\<close>

lemma ilog2_nonneg: "0 \<le> ilog2 n"
proof (induction n rule: ilog2.induct)
  case (1 n)
  show ?case
  proof (cases "n \<le> 1")
    case True
    then show ?thesis by (simp add: ilog2.simps)
  next
    case False
    with 1 have "0 \<le> ilog2 (n div 2)" by simp
    with False show ?thesis by (subst ilog2.simps) simp
  qed
qed

lemma ilog2_le: "1 \<le> n \<Longrightarrow> 2 ^ nat (ilog2 n) \<le> n"
proof (induction n rule: ilog2.induct)
  case (1 n)
  show ?case
  proof (cases "n \<le> 1")
    case True
    with 1 show ?thesis by (simp add: ilog2.simps)
  next
    case False
    then have h: "1 \<le> n div 2" by simp
    with 1 False have ih: "2 ^ nat (ilog2 (n div 2)) \<le> n div 2" by simp
    have e: "ilog2 n = 1 + ilog2 (n div 2)"
      using False by (subst ilog2.simps) simp
    have "nat (1 + ilog2 (n div 2)) = Suc (nat (ilog2 (n div 2)))"
      using ilog2_nonneg [of "n div 2"] by simp
    then have "(2::int) ^ nat (ilog2 n) = 2 * 2 ^ nat (ilog2 (n div 2))"
      by (simp add: e)
    also have "\<dots> \<le> 2 * (n div 2)"
      using ih by simp
    also have "\<dots> \<le> n"
      by simp
    finally show ?thesis .
  qed
qed

lemma ilog2_less: "1 \<le> n \<Longrightarrow> n < 2 * 2 ^ nat (ilog2 n)"
proof (induction n rule: ilog2.induct)
  case (1 n)
  show ?case
  proof (cases "n \<le> 1")
    case True
    with 1 show ?thesis by (simp add: ilog2.simps)
  next
    case False
    then have h: "1 \<le> n div 2" by simp
    with 1 False have ih: "n div 2 < 2 * 2 ^ nat (ilog2 (n div 2))" by simp
    have e: "ilog2 n = 1 + ilog2 (n div 2)"
      using False by (subst ilog2.simps) simp
    have "nat (1 + ilog2 (n div 2)) = Suc (nat (ilog2 (n div 2)))"
      using ilog2_nonneg [of "n div 2"] by simp
    then have p: "(2::int) ^ nat (ilog2 n) = 2 * 2 ^ nat (ilog2 (n div 2))"
      by (simp add: e)
    define d where "d = n div 2"
    define m where "m = n mod 2"
    have "n = 2 * d + m"
      unfolding d_def m_def by simp
    moreover have "m < 2"
      unfolding m_def by simp
    ultimately have "n < 2 * (d + 1)"
      by simp
    then have "n < 2 * (n div 2 + 1)"
      unfolding d_def .
    also have "\<dots> \<le> 2 * (2 * 2 ^ nat (ilog2 (n div 2)))"
      using ih by simp
    finally show ?thesis
      by (simp add: p)
  qed
qed

lemma exponent_of_bounds:
  assumes "0 < x"
  shows "pow2 (exponent_of x) \<le> x" and "x < pow2 (exponent_of x + 1)"
proof -
  have "pow2 (exponent_of x) \<le> x \<and> x < pow2 (exponent_of x + 1)"
  proof (cases "1 \<le> x")
    case True
    define e where "e = ilog2 \<lfloor>x\<rfloor>"
    have e0: "0 \<le> e"
      unfolding e_def by (rule ilog2_nonneg)
    have ex: "exponent_of x = e"
      using True by (simp add: exponent_of_def e_def)
    have f1: "1 \<le> \<lfloor>x\<rfloor>"
      using True by linarith
    have "real_of_int (2 ^ nat e) \<le> real_of_int \<lfloor>x\<rfloor>"
      using ilog2_le [OF f1] unfolding e_def by linarith
    then have lo: "2 ^ nat e \<le> x"
      by (simp add: le_floor_iff)
    have "\<lfloor>x\<rfloor> + 1 \<le> 2 * 2 ^ nat e"
      using ilog2_less [OF f1] unfolding e_def by linarith
    then have "real_of_int (\<lfloor>x\<rfloor> + 1) \<le> real_of_int (2 * 2 ^ nat e)"
      by linarith
    then have "real_of_int \<lfloor>x\<rfloor> + 1 \<le> 2 * 2 ^ nat e"
      by simp
    moreover have "x < real_of_int \<lfloor>x\<rfloor> + 1"
      by linarith
    ultimately have hi: "x < 2 * 2 ^ nat e"
      by (rule less_le_trans [rotated])
    have "nat (e + 1) = Suc (nat e)"
      using e0 by simp
    then have "pow2 (e + 1) = 2 * 2 ^ nat e"
      using e0 by (simp add: pow2_def)
    moreover have "pow2 e = 2 ^ nat e"
      using e0 by (simp add: pow2_def)
    ultimately show ?thesis
      using lo hi by (simp add: ex)
  next
    case False
    define n where "n = \<lceil>1 / x\<rceil>"
    define k where "k = ilog2 (n - 1)"
    have k0: "0 \<le> k"
      unfolding k_def by (rule ilog2_nonneg)
    have "1 < 1 / x"
      using False assms by simp
    then have n2: "2 \<le> n"
      unfolding n_def by linarith
    then have c: "clog2 n = 1 + k"
      by (simp add: clog2_def k_def)
    have ex: "exponent_of x = - 1 - k"
      using False by (simp add: exponent_of_def c n_def [symmetric])
    have n1: "1 \<le> n - 1"
      using n2 by simp
    have up: "1 / x \<le> real_of_int n"
      unfolding n_def by linarith
    have dn: "real_of_int (n - 1) < 1 / x"
      unfolding n_def by linarith
    have "n \<le> 2 * 2 ^ nat k"
      using ilog2_less [OF n1] unfolding k_def by linarith
    then have "real_of_int n \<le> real_of_int (2 * 2 ^ nat k)"
      by linarith
    with up have "1 / x \<le> 2 * 2 ^ nat k"
      by simp
    then have lo: "1 / (2 * 2 ^ nat k) \<le> x"
      using assms by (simp add: field_simps)
    have "real_of_int (2 ^ nat k) \<le> real_of_int (n - 1)"
      using ilog2_le [OF n1] unfolding k_def by linarith
    with dn have "2 ^ nat k < 1 / x"
      by simp
    then have hi: "x < 1 / 2 ^ nat k"
      using assms by (simp add: field_simps)
    have "nat (k + 1) = Suc (nat k)"
      using k0 by simp
    then have p: "pow2 (- 1 - k) = 1 / (2 * 2 ^ nat k)"
      using k0 by (simp add: pow2_def)
    have q: "pow2 (- 1 - k + 1) = 1 / 2 ^ nat k"
      using k0 by (cases "k = 0") (simp_all add: pow2_def)
    show ?thesis
      using lo hi by (simp only: ex p q)
  qed
  then show "pow2 (exponent_of x) \<le> x" and "x < pow2 (exponent_of x + 1)"
    by simp_all
qed

subsection \<open>The threshold of the slope test\<close>

text \<open>
  The test on line 115 compares the rounded difference with 1. Rounding is monotone and 1
  is a \<^verbatim>\<open>float\<close> value, so the test has an exact threshold: the \<^verbatim>\<open>float\<close> values
  just below 1 are \<open>2 ^ - 24\<close> apart, the half-way point \<open>1 - 2 ^ - 25\<close> goes to 1 (the
  even neighbour), and so the rounded difference is below 1 in absolute value exactly when
  the exact difference is below \<open>1 - 2 ^ - 25\<close>. This is proved for every real number, with
  no evaluation: first the bounds on the exponent, then the behaviour of rounding to the
  nearest integer at a half, then the three ranges of \<open>x\<close>.
\<close>

lemma round_even_below: "y < real_of_int K - 1 / 2 \<Longrightarrow> round_even y \<le> K - 1"
  unfolding round_even_def Let_def by (auto; linarith)

lemma round_even_at_least:
  assumes "real_of_int K - 1 / 2 \<le> y" and "even K"
  shows "K \<le> round_even y"
proof (cases "K \<le> \<lfloor>y\<rfloor>")
  case True
  then show ?thesis
    unfolding round_even_def Let_def by auto
next
  case False
  have "K - 1 \<le> \<lfloor>y\<rfloor>"
    using assms(1) by linarith
  with False have f: "\<lfloor>y\<rfloor> = K - 1"
    by simp
  with assms(2) have "odd \<lfloor>y\<rfloor>"
    by simp
  moreover have "\<not> y - real_of_int \<lfloor>y\<rfloor> < 1 / 2"
    using assms(1) f by simp
  ultimately show ?thesis
    unfolding round_even_def Let_def using f by auto
qed

lemma round_even_above: "real_of_int K + 1 / 2 < y \<Longrightarrow> K + 1 \<le> round_even y"
  unfolding round_even_def Let_def by (auto; linarith)

lemma round_even_at_most:
  assumes "y \<le> real_of_int K + 1 / 2" and "even K"
  shows "round_even y \<le> K"
proof (cases "\<lfloor>y\<rfloor> + 1 \<le> K")
  case True
  then show ?thesis
    unfolding round_even_def Let_def by auto
next
  case False
  have "\<lfloor>y\<rfloor> \<le> K"
    using assms(1) by linarith
  with False have f: "\<lfloor>y\<rfloor> = K"
    by simp
  have "\<not> 1 / 2 < y - real_of_int \<lfloor>y\<rfloor>"
    using assms(1) f by simp
  then show ?thesis
    unfolding round_even_def Let_def using f assms(2) by auto
qed

lemma round_even_mono_ge: "real_of_int K \<le> y \<Longrightarrow> K \<le> round_even y"
  unfolding round_even_def Let_def by (auto; linarith)

lemma round_even_mono_le: "y \<le> real_of_int K \<Longrightarrow> round_even y \<le> K"
  unfolding round_even_def Let_def by (auto; linarith)

lemma exponent_below_one:
  assumes "0 < x" and "x < 1"
  shows "exponent_of x \<le> - 1"
proof -
  have "1 < 1 / x"
    using assms by simp
  then have c: "2 \<le> \<lceil>1 / x\<rceil>"
    by linarith
  then have "clog2 \<lceil>1 / x\<rceil> = 1 + ilog2 (\<lceil>1 / x\<rceil> - 1)"
    by (simp add: clog2_def)
  with ilog2_nonneg [of "\<lceil>1 / x\<rceil> - 1"] have "1 \<le> clog2 \<lceil>1 / x\<rceil>"
    by simp
  with assms show ?thesis
    by (simp add: exponent_of_def)
qed

lemma exponent_half:
  assumes "1 / 2 \<le> x" and "x < 1"
  shows "exponent_of x = - 1"
proof -
  have "1 < 1 / x"
    using assms by simp
  moreover have "1 / x \<le> 2"
    using assms by (simp add: field_simps)
  ultimately have "\<lceil>1 / x\<rceil> = 2"
    by linarith
  moreover have "ilog2 1 = 0"
    by (simp add: ilog2.simps)
  ultimately have "clog2 \<lceil>1 / x\<rceil> = 1"
    by (simp add: clog2_def)
  with assms show ?thesis
    by (simp add: exponent_of_def)
qed

lemma fl32_below_one:
  assumes "x \<noteq> 0" and "\<bar>x\<bar> < 1"
  shows "\<exists>n. 24 \<le> n \<and> (1 / 2 \<le> \<bar>x\<bar> \<longrightarrow> n = 24) \<and>
    fl32 x = real_of_int (round_even (x * 2 ^ n)) / 2 ^ n"
proof -
  define m where "m = max (exponent_of \<bar>x\<bar>) (- 126)"
  define n where "n = nat (23 - m)"
  have pos: "0 < \<bar>x\<bar>"
    using assms(1) by simp
  have m1: "m \<le> - 1"
    using exponent_below_one [OF pos assms(2)] by (simp add: m_def)
  have n24: "24 \<le> n"
    using m1 by (simp add: n_def)
  have half: "1 / 2 \<le> \<bar>x\<bar> \<longrightarrow> n = 24"
    using exponent_half [of "\<bar>x\<bar>"] assms(2) by (simp add: n_def m_def)
  have q: "pow2 (m - (int 24 - 1)) = 1 / 2 ^ n"
    using m1 by (simp add: pow2_def n_def)
  have "fl32 x = real_of_int (round_even (x / (1 / 2 ^ n))) * (1 / 2 ^ n)"
    using assms(1) q unfolding fl32_def fl_def Let_def m_def by simp
  then have "fl32 x = real_of_int (round_even (x * 2 ^ n)) / 2 ^ n"
    by simp
  with n24 half show ?thesis
    by blast
qed

lemma fl32_unit:
  assumes "x \<noteq> 0" and "\<bar>x\<bar> < 1"
  shows "\<bar>fl32 x\<bar> < 1 \<longleftrightarrow> \<bar>x\<bar> < 1 - 1 / 2 ^ 25"
proof -
  obtain n where n24: "24 \<le> n" and half: "1 / 2 \<le> \<bar>x\<bar> \<longrightarrow> n = 24"
    and f: "fl32 x = real_of_int (round_even (x * 2 ^ n)) / 2 ^ n"
    using fl32_below_one [OF assms] by blast
  define K :: int where "K = 2 ^ n"
  define N :: real where "N = real_of_int K"
  define r where "r = round_even (x * N)"
  have N_eq: "N = 2 ^ n"
    by (simp add: N_def K_def)
  have "(2::real) ^ 24 \<le> 2 ^ n"
    using n24 by (rule power_increasing) simp
  then have N_big: "16777216 \<le> N"
    by (simp add: N_eq)
  have N_half: "1 / 2 \<le> \<bar>x\<bar> \<longrightarrow> N = 16777216"
    using half by (auto simp add: N_eq)
  have evenK: "even K"
    using n24 by (simp add: K_def)
  have f': "fl32 x = real_of_int r / N"
    using f by (simp add: r_def N_eq)
  have lhs: "\<bar>fl32 x\<bar> < 1 \<longleftrightarrow> - K < r \<and> r < K"
  proof -
    have "\<bar>fl32 x\<bar> < 1 \<longleftrightarrow> \<bar>real_of_int r\<bar> < N"
      using N_big by (simp add: f' field_simps)
    also have "\<dots> \<longleftrightarrow> - K < r \<and> r < K"
      unfolding N_def by linarith
    finally show ?thesis .
  qed
  have margin: "(1 - 1 / 2 ^ 25) * N \<le> N - 1 / 2"
    using N_big by (simp add: algebra_simps)
  show ?thesis
  proof (cases "0 < x")
    case True
    have "real_of_int 0 \<le> x * N"
      using True N_big by simp
    then have r0: "0 \<le> r"
      unfolding r_def by (rule round_even_mono_ge)
    show ?thesis
    proof
      assume "\<bar>fl32 x\<bar> < 1"
      with lhs have "r < K"
        by simp
      then have "\<not> real_of_int K - 1 / 2 \<le> x * N"
        using round_even_at_least [of K "x * N"] evenK by (auto simp add: r_def)
      then have xN: "x * N < N - 1 / 2"
        by (simp add: N_def)
      show "\<bar>x\<bar> < 1 - 1 / 2 ^ 25"
      proof (cases "1 / 2 \<le> \<bar>x\<bar>")
        case True
        with N_half have "N = 16777216"
          by simp
        with xN \<open>0 < x\<close> show ?thesis
          by simp
      next
        case False
        then show ?thesis
          by simp
      qed
    next
      assume "\<bar>x\<bar> < 1 - 1 / 2 ^ 25"
      with True have "x < 1 - 1 / 2 ^ 25"
        by simp
      then have "x * N < (1 - 1 / 2 ^ 25) * N"
        using N_big by (intro mult_strict_right_mono) simp_all
      then have "x * N < N - 1 / 2"
        using margin by (rule less_le_trans)
      then have "r \<le> K - 1"
        unfolding r_def N_def by (rule round_even_below)
      with r0 lhs evenK show "\<bar>fl32 x\<bar> < 1"
        by (simp add: K_def)
    qed
  next
    case False
    with assms(1) have neg: "x < 0"
      by simp
    have "x * N \<le> real_of_int 0"
      using neg N_big by (simp add: mult_le_0_iff)
    then have r0: "r \<le> 0"
      unfolding r_def by (rule round_even_mono_le)
    have evenK': "even (- K)"
      using evenK by simp
    show ?thesis
    proof
      assume "\<bar>fl32 x\<bar> < 1"
      with lhs have "- K < r"
        by simp
      then have "\<not> x * N \<le> real_of_int (- K) + 1 / 2"
        using round_even_at_most [of "x * N" "- K"] evenK' by (auto simp add: r_def)
      then have xN: "- N + 1 / 2 < x * N"
        by (simp add: N_def)
      show "\<bar>x\<bar> < 1 - 1 / 2 ^ 25"
      proof (cases "1 / 2 \<le> \<bar>x\<bar>")
        case True
        with N_half have "N = 16777216"
          by simp
        with xN neg show ?thesis
          by simp
      next
        case False
        then show ?thesis
          by simp
      qed
    next
      assume "\<bar>x\<bar> < 1 - 1 / 2 ^ 25"
      with neg have "- x < 1 - 1 / 2 ^ 25"
        by simp
      then have "(- x) * N < (1 - 1 / 2 ^ 25) * N"
        using N_big by (intro mult_strict_right_mono) simp_all
      then have "(- x) * N < N - 1 / 2"
        using margin by (rule less_le_trans)
      then have "real_of_int (- K) + 1 / 2 < x * real_of_int K"
        unfolding N_def by simp
      then have "- K + 1 \<le> r"
        unfolding r_def N_def by (rule round_even_above)
      with r0 lhs evenK show "\<bar>fl32 x\<bar> < 1"
        by (simp add: K_def)
    qed
  qed
qed

lemma fl32_large:
  assumes "1 \<le> \<bar>x\<bar>"
  shows "1 \<le> \<bar>fl32 x\<bar>"
proof -
  define e where "e = ilog2 \<lfloor>\<bar>x\<bar>\<rfloor>"
  have e0: "0 \<le> e"
    unfolding e_def by (rule ilog2_nonneg)
  have x0: "x \<noteq> 0"
    using assms by auto
  have ex: "exponent_of \<bar>x\<bar> = e"
    using assms by (simp add: exponent_of_def e_def)
  have f: "fl32 x = real_of_int (round_even (x / pow2 (e - 23))) * pow2 (e - 23)"
    using x0 e0 unfolding fl32_def fl_def Let_def ex by (simp add: max_def)
  have fl1: "1 \<le> \<lfloor>\<bar>x\<bar>\<rfloor>"
    using assms by linarith
  have low: "2 ^ nat e \<le> \<bar>x\<bar>"
  proof -
    have "real_of_int (2 ^ nat e) \<le> real_of_int \<lfloor>\<bar>x\<bar>\<rfloor>"
      using ilog2_le [OF fl1] unfolding e_def by linarith
    also have "\<dots> \<le> \<bar>x\<bar>"
      by linarith
    finally show ?thesis
      by simp
  qed
  show ?thesis
  proof (cases "e \<le> 23")
    case True
    define K :: int where "K = 2 ^ nat (23 - e)"
    have q: "pow2 (e - 23) = 1 / real_of_int K"
      using True by (auto simp add: pow2_def K_def)
    have K0: "0 < real_of_int K"
      by (simp add: K_def)
    have f': "fl32 x = real_of_int (round_even (x * real_of_int K)) / real_of_int K"
      by (simp add: f q)
    have "K \<le> \<bar>round_even (x * real_of_int K)\<bar>"
    proof (cases "0 \<le> x")
      case True
      with assms have "1 \<le> x"
        by simp
      then have "real_of_int K \<le> x * real_of_int K"
        using K0 by simp
      then have "K \<le> round_even (x * real_of_int K)"
        by (rule round_even_mono_ge)
      then show ?thesis
        by simp
    next
      case False
      with assms have "x \<le> - 1"
        by simp
      then have "x * real_of_int K \<le> (- 1) * real_of_int K"
        using K0 by (intro mult_right_mono) simp_all
      then have "x * real_of_int K \<le> real_of_int (- K)"
        by simp
      then have "round_even (x * real_of_int K) \<le> - K"
        by (rule round_even_mono_le)
      then show ?thesis
        by simp
    qed
    then have "real_of_int K \<le> \<bar>real_of_int (round_even (x * real_of_int K))\<bar>"
      by linarith
    then show ?thesis
      using K0 by (simp add: f' field_simps)
  next
    case False
    define Q :: real where "Q = 2 ^ nat (e - 23)"
    have q: "pow2 (e - 23) = Q"
      using False by (simp add: pow2_def Q_def)
    have Q1: "1 \<le> Q"
      by (simp add: Q_def)
    have "nat e = nat (e - 23) + 23"
      using False by simp
    then have "(2::real) ^ nat e = Q * 2 ^ 23"
      by (simp add: Q_def power_add)
    with low Q1 have big: "Q \<le> \<bar>x\<bar>"
      by simp
    have "1 \<le> \<bar>round_even (x / Q)\<bar>"
    proof (cases "0 \<le> x")
      case True
      with big Q1 have "real_of_int 1 \<le> x / Q"
        by (simp add: field_simps)
      then have "1 \<le> round_even (x / Q)"
        by (rule round_even_mono_ge)
      then show ?thesis
        by simp
    next
      case False
      with big Q1 have "x / Q \<le> real_of_int (- 1)"
        by (simp add: field_simps)
      then have "round_even (x / Q) \<le> - 1"
        by (rule round_even_mono_le)
      then show ?thesis
        by simp
    qed
    then have "1 \<le> \<bar>real_of_int (round_even (x / Q))\<bar>"
      by linarith
    then have "1 * 1 \<le> \<bar>real_of_int (round_even (x / Q))\<bar> * Q"
      using Q1 by (intro mult_mono) simp_all
    then show ?thesis
      using Q1 by (simp add: f q abs_mult)
  qed
qed

lemma abs_fl32_less_one: "\<bar>fl32 x\<bar> < 1 \<longleftrightarrow> \<bar>x\<bar> < 1 - 1 / 2 ^ 25"
proof (cases "x = 0")
  case True
  then show ?thesis
    by (simp add: fl32_def fl_def)
next
  case False
  show ?thesis
  proof (cases "\<bar>x\<bar> < 1")
    case True
    with False show ?thesis
      by (rule fl32_unit)
  next
    case False
    then have "1 \<le> \<bar>x\<bar>"
      by simp
    then have "1 \<le> \<bar>fl32 x\<bar>"
      by (rule fl32_large)
    with False show ?thesis
      by simp
  qed
qed

lemma slope_test_exact:
  "(\<bar>fl32 x\<bar> < real_of_int slope_ysize) = (\<bar>x\<bar> < 1 - 1 / 2 ^ 25)"
  using abs_fl32_less_one [of x] by (simp add: slope_ysize_def)

subsection \<open>The stages of one tick\<close>

text \<open>The MIDI callbacks leave the variables of the ribbon alone.\<close>

lemma dispatch_frame:
  "dispatch c s = (s', out) \<Longrightarrow>
     baseline s' = baseline s \<and> accumulator s' = accumulator s \<and> sample s' = sample s
     \<and> currentValue s' = currentValue s \<and> loopCount s' = loopCount s
     \<and> lastMessage s' = lastMessage s \<and> lastBend s' = lastBend s"
  by (cases c)
     (auto simp: MIDINoteOnHandler_def MIDINoteOffHandler_def MIDIThruHandler_def Let_def
           split: if_splits)

lemma midi_read_frame:
  "midi_read cs s = (s', out) \<Longrightarrow>
     baseline s' = baseline s \<and> accumulator s' = accumulator s \<and> sample s' = sample s
     \<and> currentValue s' = currentValue s \<and> loopCount s' = loopCount s
     \<and> lastMessage s' = lastMessage s \<and> lastBend s' = lastBend s"
proof (induction cs arbitrary: s s' out)
  case Nil
  then show ?case by simp
next
  case (Cons c cs)
  obtain s1 o1 where d: "dispatch c s = (s1, o1)" by (cases "dispatch c s")
  obtain s2 o2 where r: "midi_read cs s1 = (s2, o2)" by (cases "midi_read cs s1")
  from Cons.prems d r have "s' = s2" by simp
  with Cons.IH [OF r] dispatch_frame [OF d] show ?case by simp
qed

lemma loop_Inr:
  "loop b t s = Inr (s', out) \<longleftrightarrow>
     (\<exists>s2. slope_filter b (analogRead t) (fst (midi_read (callbacks t) s)) = Inr s2
        \<and> s' = next_loopCount (fst (ribbon (millis1 t) (millis2 t) s2))
        \<and> out = snd (midi_read (callbacks t) s) @ snd (ribbon (millis1 t) (millis2 t) s2))"
  by (auto simp: loop_def Let_def split: prod.splits sum.splits)

lemma slope_filter_Inr:
  "slope_filter b r s = Inr s2 \<Longrightarrow>
     in_bounds (loopCount s smod slope_xsize) (sample s)
     \<and> in_bounds ((loopCount s + 1) smod slope_xsize) (sample s)
     \<and> accumulator s2 = average b (accumulator s) (fl32 (real_of_int r))
     \<and> sample s2 = (sample s)[nat (loopCount s smod slope_xsize) := accumulator s2]
     \<and> currentValue s2 =
         (if \<bar>fl32 (accumulator s2
               - sample s2 ! nat ((loopCount s + 1) smod slope_xsize))\<bar> < 1
          then accumulator s2 else currentValue s)
     \<and> baseline s2 = baseline s \<and> loopCount s2 = loopCount s
     \<and> lastMessage s2 = lastMessage s \<and> lastBend s2 = lastBend s
     \<and> lastChannelUsed s2 = lastChannelUsed s
     \<and> midiNoteBuffer s2 = midiNoteBuffer s
     \<and> lastAfterTouchMessage s2 = lastAfterTouchMessage s"
  by (auto simp: slope_filter_def Let_def in_bounds_def float_ysize split: if_splits)

lemma slope_filter_total:
  "in_bounds (loopCount s smod slope_xsize) (sample s) \<Longrightarrow>
   in_bounds ((loopCount s + 1) smod slope_xsize) (sample s) \<Longrightarrow>
   \<exists>s2. slope_filter b r s = Inr s2"
  by (auto simp: slope_filter_def Let_def in_bounds_def)

lemma ribbon_frame:
  "currentValue (fst (ribbon m1 m2 s)) = currentValue s
   \<and> accumulator (fst (ribbon m1 m2 s)) = accumulator s
   \<and> sample (fst (ribbon m1 m2 s)) = sample s
   \<and> loopCount (fst (ribbon m1 m2 s)) = loopCount s
   \<and> lastChannelUsed (fst (ribbon m1 m2 s)) = lastChannelUsed s"
  by (simp add: ribbon_def Let_def)

lemma next_loopCount_frame:
  "currentValue (next_loopCount s) = currentValue s
   \<and> accumulator (next_loopCount s) = accumulator s
   \<and> sample (next_loopCount s) = sample s
   \<and> baseline (next_loopCount s) = baseline s
   \<and> lastMessage (next_loopCount s) = lastMessage s
   \<and> lastBend (next_loopCount s) = lastBend s
   \<and> lastChannelUsed (next_loopCount s) = lastChannelUsed s"
  by (simp add: next_loopCount_def Let_def)

lemma next_loopCount_value:
  "0 \<le> loopCount s \<Longrightarrow> loopCount s < 20 \<Longrightarrow>
   loopCount (next_loopCount s) = (loopCount s + 1) mod 20"
  by (cases "loopCount s = 19")
     (simp_all add: next_loopCount_def Let_def slope_xsize_def signed_modulo_int_def)

lemma loop_stages:
  assumes "loop b t s = Inr (s', out)"
  shows "\<exists>s2. slope_filter b (analogRead t) (fst (midi_read (callbacks t) s)) = Inr s2
     \<and> baseline s2 = baseline s \<and> lastMessage s2 = lastMessage s \<and> lastBend s2 = lastBend s
     \<and> currentValue s2 = currentValue s' \<and> lastChannelUsed s2 = lastChannelUsed s'
     \<and> baseline s' = baseline (fst (ribbon (millis1 t) (millis2 t) s2))
     \<and> lastMessage s' = lastMessage (fst (ribbon (millis1 t) (millis2 t) s2))
     \<and> lastBend s' = lastBend (fst (ribbon (millis1 t) (millis2 t) s2))
     \<and> out = snd (midi_read (callbacks t) s) @ snd (ribbon (millis1 t) (millis2 t) s2)"
proof -
  from assms obtain s2 where
    f: "slope_filter b (analogRead t) (fst (midi_read (callbacks t) s)) = Inr s2" and
    s': "s' = next_loopCount (fst (ribbon (millis1 t) (millis2 t) s2))" and
    out: "out = snd (midi_read (callbacks t) s) @ snd (ribbon (millis1 t) (millis2 t) s2)"
    by (auto simp: loop_Inr)
  have m: "midi_read (callbacks t) s =
      (fst (midi_read (callbacks t) s), snd (midi_read (callbacks t) s))"
    by simp
  note mf = midi_read_frame [OF m]
  note sf = slope_filter_Inr [OF f]
  show ?thesis
    using f out mf sf
    by (simp add: s' next_loopCount_frame ribbon_frame)
qed

lemma smod_nonneg: "0 \<le> k \<Longrightarrow> k smod slope_xsize = k mod 20"
  by (cases "k = 0") (simp_all add: signed_modulo_int_def slope_xsize_def)

lemma loop_step:
  assumes lc: "loopCount s = int k" and k: "k < 20" and len: "length (sample s) = 20"
  shows "\<exists>s' out. loop b t s = Inr (s', out)
     \<and> loopCount s' = int (Suc k mod 20)
     \<and> accumulator s' = average b (accumulator s) (fl32 (real_of_int (analogRead t)))
     \<and> sample s' = (sample s)[k := accumulator s']
     \<and> currentValue s' =
         (if \<bar>fl32 (accumulator s' - sample s ! (Suc k mod 20))\<bar> < 1
          then accumulator s' else currentValue s)
     \<and> (baseline s = 0 \<or> 13 < baseline s \<longrightarrow> baseline s' = 0 \<or> 13 < baseline s')"
proof -
  define s1 where "s1 = fst (midi_read (callbacks t) s)"
  have m: "midi_read (callbacks t) s = (s1, snd (midi_read (callbacks t) s))"
    by (simp add: s1_def)
  note mf = midi_read_frame [OF m]
  have w: "loopCount s1 smod slope_xsize = int k"
    using mf lc k by (simp add: smod_nonneg)
  have r: "(loopCount s1 + 1) smod slope_xsize = int (Suc k mod 20)"
    using mf lc k by (simp add: smod_nonneg zmod_int add.commute)
  have "in_bounds (loopCount s1 smod slope_xsize) (sample s1)"
    "in_bounds ((loopCount s1 + 1) smod slope_xsize) (sample s1)"
    using w r mf len k by (simp_all add: in_bounds_def)
  from slope_filter_total [OF this] obtain s2 where
    f: "slope_filter b (analogRead t) s1 = Inr s2" by blast
  note sf = slope_filter_Inr [OF f]
  define s3 where "s3 = fst (ribbon (millis1 t) (millis2 t) s2)"
  define s' where "s' = next_loopCount s3"
  define out where
    "out = snd (midi_read (callbacks t) s) @ snd (ribbon (millis1 t) (millis2 t) s2)"
  have l: "loop b t s = Inr (s', out)"
    using f by (simp add: loop_Inr s1_def s'_def s3_def out_def)
  have lc3: "loopCount s3 = int k"
    using sf mf lc by (simp add: s3_def ribbon_frame)
  have lc': "loopCount s' = int (Suc k mod 20)"
    using next_loopCount_value [of s3] lc3 k by (simp add: s'_def zmod_int add.commute)
  have acc: "accumulator s' = average b (accumulator s) (fl32 (real_of_int (analogRead t)))"
    using sf mf by (simp add: s'_def s3_def next_loopCount_frame ribbon_frame)
  have smp: "sample s' = (sample s)[k := accumulator s']"
    using sf mf w by (simp add: s'_def s3_def next_loopCount_frame ribbon_frame)
  have ne: "Suc k mod 20 \<noteq> k"
    using k by (cases "k = 19") simp_all
  have cv: "currentValue s' =
         (if \<bar>fl32 (accumulator s' - sample s ! (Suc k mod 20))\<bar> < 1
          then accumulator s' else currentValue s)"
    using sf mf w r ne by (simp add: s'_def s3_def next_loopCount_frame ribbon_frame)
  have b2: "baseline s2 = baseline s"
    using sf mf by simp
  have bl: "baseline s = 0 \<or> 13 < baseline s \<longrightarrow> baseline s' = 0 \<or> 13 < baseline s'"
    using b2
    by (auto simp: s'_def s3_def next_loopCount_frame ribbon_def Let_def baseline_limit_def
          float_13)
  from l lc' acc smp cv bl show ?thesis by blast
qed

lemma run_append:
  "run b (ts @ us) s =
     (case run b ts s of
        Inl e \<Rightarrow> Inl e
      | Inr (s1, out1) \<Rightarrow>
          (case run b us s1 of
             Inl e \<Rightarrow> Inl e
           | Inr (s2, out2) \<Rightarrow> Inr (s2, out1 @ out2)))"
  by (induction ts arbitrary: s) (auto split: sum.splits)

lemma state_after_Nil: "state_after b [] s = Some s"
  by (simp add: state_after_def)

lemma state_after_snoc:
  "state_after b (ts @ [t]) s =
     (case state_after b ts s of
        None \<Rightarrow> None
      | Some s1 \<Rightarrow> (case loop b t s1 of Inl e \<Rightarrow> None | Inr (s2, out) \<Rightarrow> Some s2))"
  by (auto simp: state_after_def run_append split: sum.splits)

lemma state_after_run:
  "state_after b ts s = Some s' \<longleftrightarrow> (\<exists>out. run b ts s = Inr (s', out))"
  by (auto simp: state_after_def split: sum.splits)

text \<open>What one tick emits and does to the baseline and to the throttle, by case.\<close>

lemma loop_outcome:
  assumes "loop b t s = Inr (s', out)"
  shows "(baseline s < real_of_int baseline_limit \<and> currentValue s' > real_of_int baseline_limit \<longrightarrow>
       out = snd (midi_read (callbacks t) s) @
             [DigitalWrite led_pin HIGH, SendPitchBend 0 (lastChannelUsed s'),
              DigitalWrite led_pin LOW]
       \<and> baseline s' = currentValue s'
       \<and> lastMessage s' = lastMessage s \<and> lastBend s' = lastBend s)
   \<and> (baseline s < real_of_int baseline_limit
        \<and> \<not> currentValue s' > real_of_int baseline_limit \<longrightarrow>
       out = snd (midi_read (callbacks t) s) \<and> baseline s' = baseline s
       \<and> lastMessage s' = lastMessage s \<and> lastBend s' = lastBend s)
   \<and> (\<not> baseline s < real_of_int baseline_limit
        \<and> currentValue s' \<le> real_of_int baseline_limit \<longrightarrow>
       out = snd (midi_read (callbacks t) s) @
             [DigitalWrite led_pin HIGH, SendPitchBend 0 (lastChannelUsed s'),
              DigitalWrite led_pin LOW]
       \<and> baseline s' = 0
       \<and> lastMessage s' = lastMessage s \<and> lastBend s' = lastBend s)
   \<and> (\<not> baseline s < real_of_int baseline_limit
        \<and> \<not> currentValue s' \<le> real_of_int baseline_limit \<longrightarrow>
       (if bend_of (currentValue s') (baseline s) \<noteq> lastBend s
           \<and> 10 < millis1 t - lastMessage s
        then out = snd (midi_read (callbacks t) s) @
               [DigitalWrite led_pin HIGH,
                SendPitchBend (bend_of (currentValue s') (baseline s))
                  (lastChannelUsed s'),
                DigitalWrite led_pin LOW]
             \<and> lastBend s' = bend_of (currentValue s') (baseline s)
             \<and> lastMessage s' = millis2 t
        else out = snd (midi_read (callbacks t) s)
             \<and> lastBend s' = lastBend s \<and> lastMessage s' = lastMessage s)
       \<and> baseline s' = baseline s)"
proof -
  from loop_stages [OF assms] obtain s2 where
    "baseline s2 = baseline s" "currentValue s2 = currentValue s'"
    "lastChannelUsed s2 = lastChannelUsed s'"
    "lastMessage s2 = lastMessage s" "lastBend s2 = lastBend s"
    "baseline s' = baseline (fst (ribbon (millis1 t) (millis2 t) s2))"
    "lastMessage s' = lastMessage (fst (ribbon (millis1 t) (millis2 t) s2))"
    "lastBend s' = lastBend (fst (ribbon (millis1 t) (millis2 t) s2))"
    "out = snd (midi_read (callbacks t) s) @ snd (ribbon (millis1 t) (millis2 t) s2)"
    by blast
  then show ?thesis
    by (simp add: ribbon_def Let_def float_limit)
qed

subsection \<open>Runs from power-up\<close>

text \<open>
  After \<open>n\<close> ticks the counter is \<open>n mod 20\<close>, the buffer has its 20 cells, and the cell
  written \<open>d\<close> ticks ago holds the accumulator of that tick, or the first reading when
  fewer than \<open>d\<close> ticks have run. The baseline is 0 or above the limit.
\<close>

lemma mod20_shift:
  assumes "0 < j" and "j < 20"
  shows "(n + j) mod 20 \<noteq> n mod (20::nat)"
proof
  assume "(n + j) mod 20 = n mod 20"
  then have "20 dvd (n + j) - n"
    using mod_eq_dvd_iff_nat [of n "n + j" 20] by simp
  then have "20 dvd j"
    by simp
  with assms show False
    by (auto dest: dvd_imp_le)
qed

lemma ring_invariant:
  "\<exists>s. state_after b ts (setup_sketch nn a) = Some s
     \<and> loopCount s = int (length ts mod 20)
     \<and> length (sample s) = 20
     \<and> (baseline s = 0 \<or> 13 < baseline s)
     \<and> (\<forall>d<20. \<exists>e. state_after b (take (length ts - d) ts) (setup_sketch nn a) = Some e
            \<and> sample s ! ((length ts + 19 - d) mod 20) = accumulator e)"
proof (induction ts rule: rev_induct)
  case Nil
  show ?case
    by (simp add: state_after_Nil) (simp add: setup_sketch_def slope_xsize_def Let_def)
next
  case (snoc t ts)
  let ?init = "setup_sketch nn a"
  let ?n = "length ts"
  from snoc obtain s where
    s: "state_after b ts ?init = Some s" and
    lc: "loopCount s = int (?n mod 20)" and
    len: "length (sample s) = 20" and
    bl: "baseline s = 0 \<or> 13 < baseline s" and
    ring: "\<And>d. d < 20 \<Longrightarrow> \<exists>e. state_after b (take (?n - d) ts) ?init = Some e
            \<and> sample s ! ((?n + 19 - d) mod 20) = accumulator e"
    by blast
  have k: "?n mod 20 < 20" by simp
  from loop_step [OF lc k len, where t = t and b = b] obtain s' out where
    l: "loop b t s = Inr (s', out)" and
    lc': "loopCount s' = int (Suc (?n mod 20) mod 20)" and
    smp: "sample s' = (sample s)[?n mod 20 := accumulator s']" and
    bl': "baseline s = 0 \<or> 13 < baseline s \<longrightarrow> baseline s' = 0 \<or> 13 < baseline s'"
    by blast
  have sa: "state_after b (ts @ [t]) ?init = Some s'"
    using s l by (simp add: state_after_snoc)
  have "\<exists>e. state_after b (take (length (ts @ [t]) - d) (ts @ [t])) ?init = Some e
            \<and> sample s' ! ((length (ts @ [t]) + 19 - d) mod 20) = accumulator e"
    if d: "d < 20" for d
  proof (cases d)
    case 0
    have "(?n + 20) mod 20 = ?n mod 20" by simp
    then show ?thesis
      using sa len by (simp add: 0 smp)
  next
    case (Suc d')
    with d have d': "d' < 20" "d' < 19" by simp_all
    from ring [OF d'(1)] obtain e where
      e: "state_after b (take (?n - d') ts) ?init = Some e"
        "sample s ! ((?n + 19 - d') mod 20) = accumulator e"
      by blast
    have "?n + 19 - d' = ?n + (19 - d')"
      using d'(2) by simp
    then have ne: "(?n + 19 - d') mod 20 \<noteq> ?n mod 20"
      using d'(2) mod20_shift [of "19 - d'" ?n] by simp
    have idx: "length (ts @ [t]) + 19 - d = ?n + 19 - d'"
      by (simp add: Suc)
    have tk: "take (length (ts @ [t]) - d) (ts @ [t]) = take (?n - d') ts"
      by (simp add: Suc)
    have "sample s' ! ((?n + 19 - d') mod 20) = sample s ! ((?n + 19 - d') mod 20)"
      unfolding smp using ne by (intro nth_list_update_neq) simp
    with e show ?thesis
      unfolding idx tk by simp
  qed
  with sa lc' len bl bl' smp show ?case
    by (simp add: mod_Suc_eq)
qed

subsection \<open>The examples, evaluated\<close>

text \<open>The arithmetic of the examples: the results are the same in both builds.\<close>

lemma float_values:
  "fl32 0 = 0" "fl32 1 = 1" "fl32 2 = 2" "fl32 20 = 20" "fl32 40 = 40" "fl32 100 = 100"
  "fl32 110 = 110" "fl32 (1 / 2) = 1 / 2" "fl32 (- (5 / 8)) = - (5 / 8)"
  "fl32 (13421773 / 134217728) = 13421773 / 134217728"
  "fl32 (8178893 / 2097152) = 8178893 / 2097152"
  "fl32 (33554431 / 33554432) = 1"
  by (simp_all add: fl_eval)

lemma average_values:
  "average b 100 100 = 100"
  "average b 100 110 = 201 / 2"
  "average b (27 / 2) 1 = 103 / 8"
  "average b 0 2 = 13421773 / 134217728"
  "average b 0 40 = 2"
  "average b 2 40 = 8178893 / 2097152"
  by (cases b; simp add: fl_eval)+

lemma bend_values:
  "bend_of 100 100 = 0" "bend_of (201 / 2) 100 = 1"
  by (simp_all add: fl_eval)

lemmas eval_defs = loop_def slope_filter_def ribbon_def next_loopCount_def Let_def
  in_bounds_def slope_xsize_def slope_ysize_def baseline_limit_def led_pin_def HIGH_def LOW_def
  tick_at_def powered_up_def signed_modulo_int_def float_values float_13 average_values
  bend_values

lemma power_up: "setup_sketch 255 r = powered_up (fl32 (real_of_int r))"
  by (simp add: setup_sketch_def powered_up_def buffer_setup_def at_clear_def slope_xsize_def
      Let_def)

lemma power_up_values:
  "setup_sketch 255 0 = powered_up 0"
  "setup_sketch 255 100 = powered_up 100"
  by (simp_all add: power_up float_values)

lemma loop_touch: "loop b (tick_at 100 1000) (powered_up 100) =
   Inr (example_touched, [DigitalWrite 13 True, SendPitchBend 0 0, DigitalWrite 13 False])"
  by (simp add: eval_defs example_touched_def)

lemma loop_bend0: "loop b (tick_at 100 1001) example_touched =
   Inr (example_bent, [DigitalWrite 13 True, SendPitchBend 0 0, DigitalWrite 13 False])"
  by (simp add: eval_defs example_touched_def example_bent_def)

lemma loop_late: "loop b (tick_at 110 1011) example_bent = Inr (example_bent_late, [])"
  by (simp add: eval_defs example_touched_def example_bent_def example_bent_late_def)

lemma loop_sent: "loop b (tick_at 110 1012) example_bent =
   Inr (example_bent_sent, [DigitalWrite 13 True, SendPitchBend 1 0, DigitalWrite 13 False])"
  by (simp add: eval_defs example_touched_def example_bent_def example_bent_late_def
      example_bent_sent_def)

lemma loop_early: "loop b (tick_at 110 1001) example_touched =
   Inr (example_early_bend, [DigitalWrite 13 True, SendPitchBend 1 0, DigitalWrite 13 False])"
  by (simp add: eval_defs example_touched_def example_early_bend_def)

lemma loop_lift: "loop b (tick_at 1 2000) example_lifting =
   Inr (example_lifted, [DigitalWrite 13 True, SendPitchBend 0 1, DigitalWrite 13 False])"
  by (simp add: eval_defs example_lifting_def example_lifted_def)

lemma loop_retouch: "loop b (tick_at 100 5000) example_retouch =
   Inr (example_retouched, [DigitalWrite 13 True, SendPitchBend 0 1, DigitalWrite 13 False])"
  by (simp add: eval_defs example_retouch_def example_retouched_def)

lemma loop_retouch_move: "loop b (tick_at 110 6000) example_retouched =
   Inr (example_retouched_moved, [])"
  by (simp add: eval_defs example_retouch_def example_retouched_def
      example_retouched_moved_def)


lemma loop_jump1: "loop b (tick_at 40 1000) (powered_up 0) = Inr (example_jump1, [])"
  by (simp add: eval_defs example_jump1_def)


text \<open>The arithmetic of the two runs of twenty ticks.\<close>

lemma rise_readings:
  "fl32 3 = 3" "fl32 4 = 4" "fl32 7 = 7" "fl32 8 = 8" "fl32 10 = 10" "fl32 14 = 14"
  by (simp_all add: fl_eval)

lemma rise_average_double:
  "average DoubleConstants 0 8 = 13421773 / 33554432"
  "average DoubleConstants (13421773 / 33554432) 0 = 3187671 / 8388608"
  "average DoubleConstants (3187671 / 8388608) 10 = 14445183 / 16777216"
  "average DoubleConstants (14445183 / 16777216) 0 = 3430731 / 4194304"
  "average DoubleConstants (3430731 / 4194304) 1 = 13875639 / 16777216"
  "average DoubleConstants (13875639 / 16777216) 1 = 7010359 / 8388608"
  "average DoubleConstants (7010359 / 8388608) 1 = 14158543 / 16777216"
  "average DoubleConstants (14158543 / 16777216) 1 = 14289477 / 16777216"
  "average DoubleConstants (14289477 / 16777216) 1 = 1801733 / 2097152"
  "average DoubleConstants (1801733 / 2097152) 1 = 227063 / 262144"
  "average DoubleConstants (227063 / 262144) 1 = 14644291 / 16777216"
  "average DoubleConstants (14644291 / 16777216) 1 = 14750937 / 16777216"
  "average DoubleConstants (14750937 / 16777216) 1 = 14852251 / 16777216"
  "average DoubleConstants (14852251 / 16777216) 1 = 14948499 / 16777216"
  "average DoubleConstants (14948499 / 16777216) 1 = 15039935 / 16777216"
  "average DoubleConstants (15039935 / 16777216) 1 = 15126799 / 16777216"
  "average DoubleConstants (15126799 / 16777216) 1 = 1901165 / 2097152"
  "average DoubleConstants (1901165 / 2097152) 2 = 1007911 / 1048576"
  "average DoubleConstants (1007911 / 1048576) 7 = 1324517 / 1048576"
  "average DoubleConstants (1324517 / 1048576) 4 = 11744051 / 8388608"
  by (simp_all add: fl_eval)

lemma rise_float_double:
  "fl32 (3187671 / 8388608) = 3187671 / 8388608"
  "fl32 (13421773 / 33554432) = 13421773 / 33554432"
  "fl32 (3430731 / 4194304) = 3430731 / 4194304"
  "fl32 (13875639 / 16777216) = 13875639 / 16777216"
  "fl32 (7010359 / 8388608) = 7010359 / 8388608"
  "fl32 (14158543 / 16777216) = 14158543 / 16777216"
  "fl32 (14289477 / 16777216) = 14289477 / 16777216"
  "fl32 (1801733 / 2097152) = 1801733 / 2097152"
  "fl32 (14445183 / 16777216) = 14445183 / 16777216"
  "fl32 (227063 / 262144) = 227063 / 262144"
  "fl32 (14644291 / 16777216) = 14644291 / 16777216"
  "fl32 (14750937 / 16777216) = 14750937 / 16777216"
  "fl32 (14852251 / 16777216) = 14852251 / 16777216"
  "fl32 (14948499 / 16777216) = 14948499 / 16777216"
  "fl32 (15039935 / 16777216) = 15039935 / 16777216"
  "fl32 (15126799 / 16777216) = 15126799 / 16777216"
  "fl32 (1901165 / 2097152) = 1901165 / 2097152"
  "fl32 (1007911 / 1048576) = 1007911 / 1048576"
  "fl32 (1324517 / 1048576) = 1324517 / 1048576"
  "fl32 (11744051 / 8388608) = 11744051 / 8388608"
  by (simp_all add: fl_eval)

lemma rise_average_single:
  "average SingleConstants 0 8 = 13421773 / 33554432"
  "average SingleConstants (13421773 / 33554432) 3 = 2222981 / 4194304"
  "average SingleConstants (2222981 / 4194304) 14 = 5047845 / 4194304"
  "average SingleConstants (5047845 / 4194304) 7 = 6263459 / 4194304"
  "average SingleConstants (6263459 / 4194304) 1 = 6160001 / 4194304"
  "average SingleConstants (6160001 / 4194304) 1 = 1515429 / 1048576"
  "average SingleConstants (1515429 / 1048576) 1 = 5968345 / 4194304"
  "average SingleConstants (5968345 / 4194304) 1 = 11759285 / 8388608"
  "average SingleConstants (11759285 / 8388608) 1 = 11590751 / 8388608"
  "average SingleConstants (11590751 / 8388608) 1 = 11430643 / 8388608"
  "average SingleConstants (11430643 / 8388608) 1 = 11278541 / 8388608"
  "average SingleConstants (11278541 / 8388608) 1 = 2783511 / 2097152"
  "average SingleConstants (2783511 / 2097152) 1 = 2749193 / 2097152"
  "average SingleConstants (2749193 / 2097152) 1 = 10866363 / 8388608"
  "average SingleConstants (10866363 / 8388608) 1 = 10742475 / 8388608"
  "average SingleConstants (10742475 / 8388608) 1 = 10624781 / 8388608"
  "average SingleConstants (10624781 / 8388608) 1 = 2628243 / 2097152"
  "average SingleConstants (2628243 / 2097152) 4 = 11665045 / 8388608"
  "average SingleConstants (11665045 / 8388608) 2 = 5960327 / 4194304"
  "average SingleConstants (5960327 / 4194304) 1 = 11744051 / 8388608"
  by (simp_all add: fl_eval)

lemma rise_float_single:
  "fl32 (13421773 / 33554432) = 13421773 / 33554432"
  "fl32 (2222981 / 4194304) = 2222981 / 4194304"
  "fl32 (5047845 / 4194304) = 5047845 / 4194304"
  "fl32 (2628243 / 2097152) = 2628243 / 2097152"
  "fl32 (10624781 / 8388608) = 10624781 / 8388608"
  "fl32 (10742475 / 8388608) = 10742475 / 8388608"
  "fl32 (10866363 / 8388608) = 10866363 / 8388608"
  "fl32 (2749193 / 2097152) = 2749193 / 2097152"
  "fl32 (2783511 / 2097152) = 2783511 / 2097152"
  "fl32 (11278541 / 8388608) = 11278541 / 8388608"
  "fl32 (11430643 / 8388608) = 11430643 / 8388608"
  "fl32 (11590751 / 8388608) = 11590751 / 8388608"
  "fl32 (11665045 / 8388608) = 11665045 / 8388608"
  "fl32 (11744051 / 8388608) = 11744051 / 8388608"
  "fl32 (11759285 / 8388608) = 11759285 / 8388608"
  "fl32 (5960327 / 4194304) = 5960327 / 4194304"
  "fl32 (5968345 / 4194304) = 5968345 / 4194304"
  "fl32 (1515429 / 1048576) = 1515429 / 1048576"
  "fl32 (6160001 / 4194304) = 6160001 / 4194304"
  "fl32 (6263459 / 4194304) = 6263459 / 4194304"
  by (simp_all add: fl_eval)

lemma rise_first:
  "state_after b (quiet_ticks [8]) (setup_sketch 255 0) = Some slow_rise_first"
  by (cases b)
     (simp_all add: state_after_def quiet_ticks_def power_up_values eval_defs rise_readings
        rise_average_double rise_average_single rise_float_double slow_rise_first_def)

lemma rise_double:
  "state_after DoubleConstants
     (quiet_ticks [8, 0, 10, 0, 1, 1, 1, 1, 1, 1, 1, 1, 1, 1, 1, 1, 1, 2, 7])
     (setup_sketch 255 0) = Some slow_rise_double"
  by (simp add: state_after_def quiet_ticks_def power_up_values eval_defs rise_readings
      rise_average_double rise_float_double slow_rise_double_def)

lemma rise_single:
  "state_after SingleConstants
     (quiet_ticks [8, 3, 14, 7, 1, 1, 1, 1, 1, 1, 1, 1, 1, 1, 1, 1, 1, 4, 2])
     (setup_sketch 255 0) = Some slow_rise_single"
  by (simp add: state_after_def quiet_ticks_def power_up_values eval_defs rise_readings
      rise_average_single rise_float_single slow_rise_single_def)

lemma rise_end_double:
  "loop DoubleConstants (tick_at 4 0) slow_rise_double = Inr (slow_rise_end_double, [])"
  by (simp add: eval_defs rise_readings rise_average_double rise_float_double
      slow_rise_double_def slow_rise_end_double_def)

lemma rise_end_single:
  "loop SingleConstants (tick_at 1 0) slow_rise_single = Inr (slow_rise_end_single, [])"
  by (simp add: eval_defs rise_readings rise_average_single rise_float_single
      slow_rise_single_def slow_rise_end_single_def)

text \<open>
  C4, as the spec states it, fails on the code: the difference on line 115 is a
  \<^verbatim>\<open>float\<close> subtraction, and an exact difference just below 1 rounds to 1. After
  power-up at reading 0 the first tick (reading 8) writes the \<^verbatim>\<open>float\<close> nearest to
  0.4 into the history. The twentieth tick takes the accumulator to
  \<open>11744051 / 8388608\<close>, just below 1.4, and reads that sample, written 19 ticks earlier:
  the absolute difference of the two is \<open>1 - 2 ^ - 25\<close>, less than 1.0, yet
  \<open>currentValue\<close> is left as it was. One run of readings is given for each build.
\<close>

theorem slope_filter_rounding_counterexample:
  "state_after DoubleConstants (quiet_ticks [8]) (setup_sketch 255 0) = Some slow_rise_first
   \<and> state_after DoubleConstants
       (quiet_ticks [8, 0, 10, 0, 1, 1, 1, 1, 1, 1, 1, 1, 1, 1, 1, 1, 1, 2, 7])
       (setup_sketch 255 0) = Some slow_rise_double
   \<and> loop DoubleConstants (tick_at 4 0) slow_rise_double = Inr (slow_rise_end_double, [])
   \<and> sample slow_rise_end_double ! nat ((loopCount slow_rise_double + 1) smod slope_xsize)
       = accumulator slow_rise_first
   \<and> \<bar>accumulator slow_rise_end_double - accumulator slow_rise_first\<bar>
       < real_of_int slope_ysize
   \<and> currentValue slow_rise_double = 1007911 / 1048576
   \<and> currentValue slow_rise_end_double = 1007911 / 1048576
   \<and> accumulator slow_rise_end_double = 11744051 / 8388608
   \<and> state_after SingleConstants (quiet_ticks [8]) (setup_sketch 255 0) = Some slow_rise_first
   \<and> state_after SingleConstants
       (quiet_ticks [8, 3, 14, 7, 1, 1, 1, 1, 1, 1, 1, 1, 1, 1, 1, 1, 1, 4, 2])
       (setup_sketch 255 0) = Some slow_rise_single
   \<and> loop SingleConstants (tick_at 1 0) slow_rise_single = Inr (slow_rise_end_single, [])
   \<and> sample slow_rise_end_single ! nat ((loopCount slow_rise_single + 1) smod slope_xsize)
       = accumulator slow_rise_first
   \<and> \<bar>accumulator slow_rise_end_single - accumulator slow_rise_first\<bar>
       < real_of_int slope_ysize
   \<and> currentValue slow_rise_single = 2222981 / 4194304
   \<and> currentValue slow_rise_end_single = 2222981 / 4194304
   \<and> accumulator slow_rise_end_single = 11744051 / 8388608"
  by (simp add: rise_first rise_double rise_single rise_end_double rise_end_single)
     (simp add: slow_rise_first_def slow_rise_double_def slow_rise_end_double_def
        slow_rise_single_def slow_rise_end_single_def powered_up_def slope_xsize_def
        slope_ysize_def signed_modulo_int_def)

text \<open>
  C4, amended. On the tick that follows any run \<open>ts\<close> from power-up, the sketch stores the
  new accumulator in the cell \<open>loopCount % 20\<close> of the history, then reads the cell
  \<open>(loopCount + 1) % 20\<close>. That cell holds the accumulator of the state \<open>e\<close> reached 19
  ticks before the present one (after \<open>length ts + 1 - 19\<close> ticks), which is the oldest of
  the 20 values the buffer retains; while fewer than 19 ticks have run, \<open>e\<close> is the state
  after \<open>setup\<close> and the value is the first reading. \<open>currentValue\<close> becomes the new
  accumulator exactly when the difference of the two, rounded to \<^verbatim>\<open>float\<close>, is less
  than 1 in absolute value, and keeps its value otherwise. In terms of the values
  themselves, that is exactly when their absolute difference is less than \<open>1 - 2 ^ - 25\<close>.
\<close>

theorem slope_filter_compares_lagged_sample:
  "\<exists>s s' e. state_after b ts (setup_sketch nn a) = Some s
     \<and> state_after b (ts @ [t]) (setup_sketch nn a) = Some s'
     \<and> state_after b (take (length ts + 1 - 19) ts) (setup_sketch nn a) = Some e
     \<and> (length ts + 1 \<le> 19 \<longrightarrow> accumulator e = fl32 (real_of_int a))
     \<and> sample s' = (sample s)[nat (loopCount s smod slope_xsize) := accumulator s']
     \<and> sample s' ! nat ((loopCount s + 1) smod slope_xsize) = accumulator e
     \<and> currentValue s' =
         (if \<bar>fl32 (accumulator s' - accumulator e)\<bar> < real_of_int slope_ysize
          then accumulator s' else currentValue s)
     \<and> (\<bar>fl32 (accumulator s' - accumulator e)\<bar> < real_of_int slope_ysize)
         = (\<bar>accumulator s' - accumulator e\<bar> < 1 - 1 / 2 ^ 25)"
proof -
  let ?init = "setup_sketch nn a"
  let ?n = "length ts"
  from ring_invariant [where ts = ts and nn = nn and a = a and b = b] obtain s where
    s: "state_after b ts ?init = Some s" and
    lc: "loopCount s = int (?n mod 20)" and
    len: "length (sample s) = 20" and
    ring: "\<And>d. d < 20 \<Longrightarrow> \<exists>e. state_after b (take (?n - d) ts) ?init = Some e
            \<and> sample s ! ((?n + 19 - d) mod 20) = accumulator e"
    by blast
  have k: "?n mod 20 < 20" by simp
  from loop_step [OF lc k len, where t = t and b = b] obtain s' out where
    l: "loop b t s = Inr (s', out)" and
    smp: "sample s' = (sample s)[?n mod 20 := accumulator s']" and
    cv: "currentValue s' =
         (if \<bar>fl32 (accumulator s' - sample s ! (Suc (?n mod 20) mod 20))\<bar> < 1
          then accumulator s' else currentValue s)"
    by blast
  have sa: "state_after b (ts @ [t]) ?init = Some s'"
    using s l by (simp add: state_after_snoc)
  from ring [of 18] obtain e where
    e: "state_after b (take (?n - 18) ts) ?init = Some e"
      "sample s ! ((?n + 1) mod 20) = accumulator e"
    by auto
  have seed: "accumulator e = fl32 (real_of_int a)" if "?n + 1 \<le> 19"
    using e(1) that by (simp add: state_after_Nil) (auto simp: setup_sketch_def Let_def)
  have w: "nat (loopCount s smod slope_xsize) = ?n mod 20"
    using lc by (simp add: smod_nonneg)
  have "(loopCount s + 1) smod slope_xsize = int (Suc ?n mod 20)"
    using lc by (simp add: smod_nonneg zmod_int add.commute mod_simps)
  then have r: "nat ((loopCount s + 1) smod slope_xsize) = Suc ?n mod 20"
    by simp
  have ne: "Suc ?n mod 20 \<noteq> ?n mod 20"
    using mod20_shift [of 1 ?n] by simp
  have old: "sample s ! (Suc (?n mod 20) mod 20) = accumulator e"
    using e(2) by (simp add: mod_Suc_eq)
  have rd: "sample s' ! (Suc ?n mod 20) = accumulator e"
    using e(2) ne by (simp add: smp)
  have cv': "currentValue s' =
         (if \<bar>fl32 (accumulator s' - accumulator e)\<bar> < real_of_int slope_ysize
          then accumulator s' else currentValue s)"
    using cv old by (simp add: slope_ysize_def)
  have smp': "sample s' = (sample s)[nat (loopCount s smod slope_xsize) := accumulator s']"
    using smp by (simp add: w)
  have rd': "sample s' ! nat ((loopCount s + 1) smod slope_xsize) = accumulator e"
    using rd by (simp add: r)
  have seed': "length ts + 1 \<le> 19 \<longrightarrow> accumulator e = fl32 (real_of_int a)"
    using seed by simp
  have e': "state_after b (take (length ts + 1 - 19) ts) ?init = Some e"
    using e(1) by simp
  from s sa e' seed' smp' rd' cv' slope_test_exact [of "accumulator s' - accumulator e"]
  show ?thesis
    by blast
qed

theorem slope_filter_compares_lagged_sample_witness:
  "state_after DoubleConstants [] (setup_sketch 255 0) = Some (powered_up 0)
     \<and> state_after DoubleConstants [tick_at 40 1000] (setup_sketch 255 0) = Some example_jump1
     \<and> length ([] :: tick list) + 1 \<le> 19
     \<and> accumulator (powered_up 0) = fl32 (real_of_int 0)
     \<and> sample example_jump1 ! 1 = accumulator (powered_up 0)
     \<and> accumulator example_jump1 = 2
     \<and> \<not> \<bar>fl32 (accumulator example_jump1 - accumulator (powered_up 0))\<bar> < 1
     \<and> \<not> \<bar>accumulator example_jump1 - accumulator (powered_up 0)\<bar> < 1 - 1 / 2 ^ 25
     \<and> currentValue example_jump1 = currentValue (powered_up 0)"
proof -
  have direct: "state_after DoubleConstants [] (setup_sketch 255 0) = Some (powered_up 0)
     \<and> state_after DoubleConstants [tick_at 40 1000] (setup_sketch 255 0) = Some example_jump1
     \<and> length ([] :: tick list) + 1 \<le> 19
     \<and> accumulator (powered_up 0) = fl32 (real_of_int 0)
     \<and> sample example_jump1 ! 1 = accumulator (powered_up 0)
     \<and> accumulator example_jump1 = 2
     \<and> \<not> \<bar>fl32 (accumulator example_jump1 - accumulator (powered_up 0))\<bar> < 1
     \<and> \<not> \<bar>accumulator example_jump1 - accumulator (powered_up 0)\<bar> < 1 - 1 / 2 ^ 25
     \<and> currentValue example_jump1 = currentValue (powered_up 0)"
    by (simp add: state_after_def power_up_values loop_jump1)
       (simp add: example_jump1_def powered_up_def float_values)
  show ?thesis
    using slope_filter_compares_lagged_sample
      [where b = DoubleConstants and ts = "[]" and nn = 255 and a = 0 and t = "tick_at 40 1000"]
    by - (rule direct)
qed

text \<open>
  C8. Every run from power-up returns a state (no tick of it has read or written
  \<open>sample\<close> out of bounds), and in that state, which is the state at the start of the next
  pass of \<open>loop\<close>, \<open>loopCount\<close> lies in 0..19, the array has its 20 cells, and the write
  index \<open>loopCount % 20\<close> and the read index \<open>(loopCount + 1) % 20\<close> are within it.
\<close>

theorem sample_accesses_in_bounds:
  "\<exists>s out. run b ts (setup_sketch nn a) = Inr (s, out)
     \<and> 0 \<le> loopCount s \<and> loopCount s \<le> 19
     \<and> length (sample s) = nat slope_xsize
     \<and> in_bounds (loopCount s smod slope_xsize) (sample s)
     \<and> in_bounds ((loopCount s + 1) smod slope_xsize) (sample s)"
proof -
  from ring_invariant [where ts = ts and nn = nn and a = a and b = b] obtain s where
    s: "state_after b ts (setup_sketch nn a) = Some s" and
    lc: "loopCount s = int (length ts mod 20)" and
    len: "length (sample s) = 20"
    by blast
  from s obtain out where r: "run b ts (setup_sketch nn a) = Inr (s, out)"
    by (auto simp: state_after_run)
  have b: "0 \<le> loopCount s" "loopCount s \<le> 19"
    using lc by simp_all
  have "loopCount s smod slope_xsize = loopCount s mod 20"
    "(loopCount s + 1) smod slope_xsize = (loopCount s + 1) mod 20"
    using b by (simp_all add: smod_nonneg)
  then have "in_bounds (loopCount s smod slope_xsize) (sample s)"
    "in_bounds ((loopCount s + 1) smod slope_xsize) (sample s)"
    using len by (simp_all add: in_bounds_def)
  with r b len show ?thesis
    by (auto simp: slope_xsize_def)
qed

text \<open>
  C10. After \<open>setup\<close> (the empty run) and after every further tick, \<open>baseline\<close> is either 0
  or greater than 13, so the test \<open>baseline < baseline_limit\<close> of the sketch holds exactly
  when \<open>baseline\<close> is 0.
\<close>

theorem baseline_zero_or_above_limit:
  "\<exists>s out. run b ts (setup_sketch nn a) = Inr (s, out)
     \<and> (baseline s = 0 \<or> real_of_int baseline_limit < baseline s)
     \<and> ((baseline s < real_of_int baseline_limit) = (baseline s = 0))"
proof -
  from ring_invariant [where ts = ts and nn = nn and a = a and b = b] obtain s where
    s: "state_after b ts (setup_sketch nn a) = Some s" and
    bl: "baseline s = 0 \<or> 13 < baseline s"
    by blast
  from s obtain out where "run b ts (setup_sketch nn a) = Inr (s, out)"
    by (auto simp: state_after_run)
  with bl show ?thesis
    by (auto simp: baseline_limit_def)
qed

subsection \<open>Contact and the pitch bend\<close>

text \<open>
  C5. On the tick of a contact start (\<open>baseline\<close> below the limit 13 before the tick and
  the filtered \<open>currentValue\<close> of this tick above 13) and on the tick of a contact end
  (\<open>baseline\<close> not below the limit and the filtered \<open>currentValue\<close> at most 13), the
  ribbon emits, after whatever the MIDI callbacks of the tick emitted, exactly one pitch
  bend of value 0 on the last channel used, between the two writes of the LED; the
  baseline becomes \<open>currentValue\<close> on a contact start and 0 on a contact end. Neither the
  clock nor \<open>lastMessage\<close> nor \<open>lastBend\<close> occurs in the conditions.
\<close>

theorem contact_transitions_reset_bend:
  "loop b t s = Inr (s', out) \<Longrightarrow>
   (baseline s < real_of_int baseline_limit \<and> currentValue s' > real_of_int baseline_limit \<longrightarrow>
      out = snd (midi_read (callbacks t) s) @
            [DigitalWrite led_pin HIGH, SendPitchBend 0 (lastChannelUsed s'),
             DigitalWrite led_pin LOW]
      \<and> baseline s' = currentValue s')
   \<and> (\<not> baseline s < real_of_int baseline_limit
        \<and> currentValue s' \<le> real_of_int baseline_limit \<longrightarrow>
      out = snd (midi_read (callbacks t) s) @
            [DigitalWrite led_pin HIGH, SendPitchBend 0 (lastChannelUsed s'),
             DigitalWrite led_pin LOW]
      \<and> baseline s' = 0)"
proof -
  assume "loop b t s = Inr (s', out)"
  from loop_outcome [OF this] show ?thesis
    by simp
qed

theorem contact_transitions_witness:
  "loop DoubleConstants (tick_at 100 1000) (setup_sketch 255 100) =
     Inr (example_touched,
       [DigitalWrite led_pin HIGH, SendPitchBend 0 0, DigitalWrite led_pin LOW])
   \<and> baseline (setup_sketch 255 100) < real_of_int baseline_limit
   \<and> currentValue example_touched > real_of_int baseline_limit
   \<and> lastChannelUsed example_touched = 0
   \<and> baseline example_touched = currentValue example_touched
   \<and> loop DoubleConstants (tick_at 1 2000) example_lifting =
     Inr (example_lifted,
       [DigitalWrite led_pin HIGH, SendPitchBend 0 1, DigitalWrite led_pin LOW])
   \<and> \<not> baseline example_lifting < real_of_int baseline_limit
   \<and> currentValue example_lifted \<le> real_of_int baseline_limit
   \<and> lastChannelUsed example_lifted = 1
   \<and> baseline example_lifted = 0"
proof -
  have direct: "loop DoubleConstants (tick_at 100 1000) (setup_sketch 255 100) =
     Inr (example_touched,
       [DigitalWrite led_pin HIGH, SendPitchBend 0 0, DigitalWrite led_pin LOW])
   \<and> baseline (setup_sketch 255 100) < real_of_int baseline_limit
   \<and> currentValue example_touched > real_of_int baseline_limit
   \<and> lastChannelUsed example_touched = 0
   \<and> baseline example_touched = currentValue example_touched
   \<and> loop DoubleConstants (tick_at 1 2000) example_lifting =
     Inr (example_lifted,
       [DigitalWrite led_pin HIGH, SendPitchBend 0 1, DigitalWrite led_pin LOW])
   \<and> \<not> baseline example_lifting < real_of_int baseline_limit
   \<and> currentValue example_lifted \<le> real_of_int baseline_limit
   \<and> lastChannelUsed example_lifted = 1
   \<and> baseline example_lifted = 0"
    by (simp add: power_up_values loop_touch loop_lift led_pin_def HIGH_def LOW_def)
       (simp add: example_touched_def example_lifting_def example_lifted_def powered_up_def
          baseline_limit_def)
  show ?thesis
    using contact_transitions_reset_bend
        [where b = DoubleConstants and t = "tick_at 100 1000"
          and s = "setup_sketch 255 100"
          and s' = example_touched
          and out = "[DigitalWrite led_pin HIGH, SendPitchBend 0 0, DigitalWrite led_pin LOW]"]
      contact_transitions_reset_bend
        [where b = DoubleConstants and t = "tick_at 1 2000"
          and s = example_lifting
          and s' = example_lifted
          and out = "[DigitalWrite led_pin HIGH, SendPitchBend 0 1, DigitalWrite led_pin LOW]"]
    by - (rule direct)
qed

text \<open>
  C3, as the spec states it, fails on the code: the test on line 160 is
  \<open>millis() - lastMessage > 10\<close>, so at exactly 10 ms nothing is sent. From power-up with
  a finger on the ribbon: contact start at 1000 ms, a bend of 0 sent at 1001 ms, and at
  1011 ms, in contact, a bend of 1, which differs from the last one sent, 10 ms after it;
  the tick emits nothing.
\<close>

theorem bend_throttle_counterexample:
  "run DoubleConstants [tick_at 100 1000, tick_at 100 1001] (setup_sketch 255 100) =
     Inr (example_bent,
       [DigitalWrite 13 True, SendPitchBend 0 0, DigitalWrite 13 False,
        DigitalWrite 13 True, SendPitchBend 0 0, DigitalWrite 13 False])
   \<and> run SingleConstants [tick_at 100 1000, tick_at 100 1001] (setup_sketch 255 100) =
     Inr (example_bent,
       [DigitalWrite 13 True, SendPitchBend 0 0, DigitalWrite 13 False,
        DigitalWrite 13 True, SendPitchBend 0 0, DigitalWrite 13 False])
   \<and> lastBend example_bent = 0 \<and> lastMessage example_bent = 1001
   \<and> loop DoubleConstants (tick_at 110 1011) example_bent = Inr (example_bent_late, [])
   \<and> loop SingleConstants (tick_at 110 1011) example_bent = Inr (example_bent_late, [])
   \<and> \<not> baseline example_bent < real_of_int baseline_limit
   \<and> currentValue example_bent_late > real_of_int baseline_limit
   \<and> bend_of (currentValue example_bent_late) (baseline example_bent) = 1
   \<and> bend_of (currentValue example_bent_late) (baseline example_bent)
       \<noteq> lastBend example_bent
   \<and> unat (millis1 (tick_at 110 1011) - lastMessage example_bent) = 10"
  by (simp add: power_up_values loop_touch loop_bend0 loop_late)
     (simp add: example_bent_late_def example_bent_def example_touched_def powered_up_def
        tick_at_def baseline_limit_def bend_values)

text \<open>
  C3, amended. On a tick in contact (\<open>baseline\<close> not below the limit, filtered
  \<open>currentValue\<close> above it) the ribbon emits a pitch bend exactly when the bend,
  \<open>2 * (currentValue - baseline)\<close> in \<^verbatim>\<open>float\<close> truncated to an integer, differs from
  \<open>lastBend\<close> and
  the clock, less \<open>lastMessage\<close> in 32-bit unsigned arithmetic, is more than 10; then
  \<open>lastBend\<close> becomes the bend and \<open>lastMessage\<close> the clock, otherwise nothing is emitted
  and both keep their values. Hence, last conjunct: after a tick that sent a bend, the next
  tick in contact sends one exactly when its bend differs from the one sent and its clock
  is more than 10 ms past the clock of the send; a second update within 10 ms, 10 ms
  included, yields no message.
\<close>

theorem bend_throttle:
  "loop b t s = Inr (s', out) \<Longrightarrow>
   \<not> baseline s < real_of_int baseline_limit \<Longrightarrow>
   currentValue s' > real_of_int baseline_limit \<Longrightarrow>
   (if bend_of (currentValue s') (baseline s) \<noteq> lastBend s
       \<and> 10 < millis1 t - lastMessage s
    then out = snd (midi_read (callbacks t) s) @
           [DigitalWrite led_pin HIGH,
            SendPitchBend (bend_of (currentValue s') (baseline s)) (lastChannelUsed s'),
            DigitalWrite led_pin LOW]
         \<and> lastBend s' = bend_of (currentValue s') (baseline s)
         \<and> lastMessage s' = millis2 t
    else out = snd (midi_read (callbacks t) s)
         \<and> lastBend s' = lastBend s \<and> lastMessage s' = lastMessage s)
   \<and> baseline s' = baseline s
   \<and> (\<forall>t2 s2 out2.
         loop b t2 s' = Inr (s2, out2)
         \<and> currentValue s2 > real_of_int baseline_limit
         \<and> bend_of (currentValue s') (baseline s) \<noteq> lastBend s
         \<and> 10 < millis1 t - lastMessage s \<longrightarrow>
         (if bend_of (currentValue s2) (baseline s)
               \<noteq> bend_of (currentValue s') (baseline s)
             \<and> 10 < millis1 t2 - millis2 t
          then out2 = snd (midi_read (callbacks t2) s') @
                 [DigitalWrite led_pin HIGH,
                  SendPitchBend (bend_of (currentValue s2) (baseline s))
                    (lastChannelUsed s2),
                  DigitalWrite led_pin LOW]
          else out2 = snd (midi_read (callbacks t2) s')))"
proof -
  assume l: "loop b t s = Inr (s', out)"
    and nb: "\<not> baseline s < real_of_int baseline_limit"
    and cv: "currentValue s' > real_of_int baseline_limit"
  from cv have nc: "\<not> currentValue s' \<le> real_of_int baseline_limit"
    by simp
  from loop_outcome [OF l] nb nc have
    one: "(if bend_of (currentValue s') (baseline s) \<noteq> lastBend s
           \<and> 10 < millis1 t - lastMessage s
        then out = snd (midi_read (callbacks t) s) @
               [DigitalWrite led_pin HIGH,
                SendPitchBend (bend_of (currentValue s') (baseline s))
                  (lastChannelUsed s'),
                DigitalWrite led_pin LOW]
             \<and> lastBend s' = bend_of (currentValue s') (baseline s)
             \<and> lastMessage s' = millis2 t
        else out = snd (midi_read (callbacks t) s)
             \<and> lastBend s' = lastBend s \<and> lastMessage s' = lastMessage s)"
    and b: "baseline s' = baseline s"
    by blast+
  have two: "(if bend_of (currentValue s2) (baseline s)
               \<noteq> bend_of (currentValue s') (baseline s)
             \<and> 10 < millis1 t2 - millis2 t
          then out2 = snd (midi_read (callbacks t2) s') @
                 [DigitalWrite led_pin HIGH,
                  SendPitchBend (bend_of (currentValue s2) (baseline s))
                    (lastChannelUsed s2),
                  DigitalWrite led_pin LOW]
          else out2 = snd (midi_read (callbacks t2) s'))"
    if l2: "loop b t2 s' = Inr (s2, out2)"
      and cv2: "currentValue s2 > real_of_int baseline_limit"
      and sent: "bend_of (currentValue s') (baseline s) \<noteq> lastBend s"
        "10 < millis1 t - lastMessage s"
    for t2 s2 out2
  proof -
    from one sent have upd: "lastBend s' = bend_of (currentValue s') (baseline s)"
      "lastMessage s' = millis2 t"
      by simp_all
    from nb b have nb2: "\<not> baseline s' < real_of_int baseline_limit"
      by simp
    from cv2 have nc2: "\<not> currentValue s2 \<le> real_of_int baseline_limit"
      by simp
    from loop_outcome [OF l2] nb2 nc2 have
      "(if bend_of (currentValue s2) (baseline s') \<noteq> lastBend s'
           \<and> 10 < millis1 t2 - lastMessage s'
        then out2 = snd (midi_read (callbacks t2) s') @
               [DigitalWrite led_pin HIGH,
                SendPitchBend (bend_of (currentValue s2) (baseline s'))
                  (lastChannelUsed s2),
                DigitalWrite led_pin LOW]
             \<and> lastBend s2 = bend_of (currentValue s2) (baseline s')
             \<and> lastMessage s2 = millis2 t2
        else out2 = snd (midi_read (callbacks t2) s')
             \<and> lastBend s2 = lastBend s' \<and> lastMessage s2 = lastMessage s')"
      by blast
    then show ?thesis
      unfolding upd b by (simp split: if_splits)
  qed
  from one b two show ?thesis
    by blast
qed

theorem bend_throttle_witness:
  "loop DoubleConstants (tick_at 100 1001) example_touched =
     Inr (example_bent,
       [DigitalWrite led_pin HIGH, SendPitchBend 0 0, DigitalWrite led_pin LOW])
   \<and> \<not> baseline example_touched < real_of_int baseline_limit
   \<and> currentValue example_bent > real_of_int baseline_limit
   \<and> bend_of (currentValue example_bent) (baseline example_touched) = 0
   \<and> lastBend example_touched = - 1
   \<and> (10 :: 32 word) < millis1 (tick_at 100 1001) - lastMessage example_touched
   \<and> lastBend example_bent = 0 \<and> lastMessage example_bent = 1001
   \<and> loop DoubleConstants (tick_at 110 1012) example_bent =
     Inr (example_bent_sent,
       [DigitalWrite led_pin HIGH, SendPitchBend 1 0, DigitalWrite led_pin LOW])
   \<and> currentValue example_bent_sent > real_of_int baseline_limit
   \<and> bend_of (currentValue example_bent_sent) (baseline example_touched) = 1
   \<and> (10 :: 32 word) < millis1 (tick_at 110 1012) - millis2 (tick_at 100 1001)
   \<and> loop DoubleConstants (tick_at 110 1011) example_bent = Inr (example_bent_late, [])
   \<and> \<not> (10 :: 32 word) < millis1 (tick_at 110 1011) - millis2 (tick_at 100 1001)"
proof -
  have direct: "loop DoubleConstants (tick_at 100 1001) example_touched =
     Inr (example_bent,
       [DigitalWrite led_pin HIGH, SendPitchBend 0 0, DigitalWrite led_pin LOW])
   \<and> \<not> baseline example_touched < real_of_int baseline_limit
   \<and> currentValue example_bent > real_of_int baseline_limit
   \<and> bend_of (currentValue example_bent) (baseline example_touched) = 0
   \<and> lastBend example_touched = - 1
   \<and> (10 :: 32 word) < millis1 (tick_at 100 1001) - lastMessage example_touched
   \<and> lastBend example_bent = 0 \<and> lastMessage example_bent = 1001
   \<and> loop DoubleConstants (tick_at 110 1012) example_bent =
     Inr (example_bent_sent,
       [DigitalWrite led_pin HIGH, SendPitchBend 1 0, DigitalWrite led_pin LOW])
   \<and> currentValue example_bent_sent > real_of_int baseline_limit
   \<and> bend_of (currentValue example_bent_sent) (baseline example_touched) = 1
   \<and> (10 :: 32 word) < millis1 (tick_at 110 1012) - millis2 (tick_at 100 1001)
   \<and> loop DoubleConstants (tick_at 110 1011) example_bent = Inr (example_bent_late, [])
   \<and> \<not> (10 :: 32 word) < millis1 (tick_at 110 1011) - millis2 (tick_at 100 1001)"
    by (simp add: power_up_values loop_bend0 loop_sent loop_late led_pin_def HIGH_def LOW_def)
       (simp add: example_bent_sent_def example_bent_late_def example_bent_def
          example_touched_def powered_up_def tick_at_def baseline_limit_def bend_values)
  show ?thesis
    using bend_throttle
        [where b = DoubleConstants and t = "tick_at 100 1001"
          and s = example_touched
          and s' = example_bent
          and out = "[DigitalWrite led_pin HIGH, SendPitchBend 0 0, DigitalWrite led_pin LOW]"]
    by - (rule direct)
qed

text \<open>
  C9. The pitch bend of value 0 sent on a contact start or a contact end leaves
  \<open>lastMessage\<close> and \<open>lastBend\<close> as they were (first two conjuncts); a tick changes either
  of them only when it sends a throttled bend in contact, and then \<open>lastBend\<close> is the value
  sent and \<open>lastMessage\<close> the clock (third conjunct). So the tick after a contact start
  decides against the values from before the reset (fourth conjunct): its bend is sent
  when it differs from the old \<open>lastBend\<close> and the clock is more than 10 ms past the old
  \<open>lastMessage\<close>, however soon after the reset, and it is suppressed when it equals the old
  \<open>lastBend\<close>, although the message sent last was the reset's 0. The two closing
  equations are a run in which a bend of 1 is sent at 1001 ms, 1 ms after the reset of the
  contact start at 1000 ms.
\<close>

theorem reset_leaves_throttle_state:
  "(loop b t s = Inr (s', out) \<longrightarrow>
      (baseline s < real_of_int baseline_limit \<and> currentValue s' > real_of_int baseline_limit
         \<longrightarrow> lastMessage s' = lastMessage s \<and> lastBend s' = lastBend s)
    \<and> (\<not> baseline s < real_of_int baseline_limit
         \<and> currentValue s' \<le> real_of_int baseline_limit
         \<longrightarrow> lastMessage s' = lastMessage s \<and> lastBend s' = lastBend s)
    \<and> (lastMessage s' \<noteq> lastMessage s \<or> lastBend s' \<noteq> lastBend s \<longrightarrow>
         \<not> baseline s < real_of_int baseline_limit
         \<and> currentValue s' > real_of_int baseline_limit
         \<and> out = snd (midi_read (callbacks t) s) @
               [DigitalWrite led_pin HIGH, SendPitchBend (lastBend s') (lastChannelUsed s'),
                DigitalWrite led_pin LOW]
         \<and> lastBend s' = bend_of (currentValue s') (baseline s)
         \<and> lastBend s' \<noteq> lastBend s
         \<and> 10 < millis1 t - lastMessage s
         \<and> lastMessage s' = millis2 t)
    \<and> (\<forall>t2 s2 out2.
         loop b t2 s' = Inr (s2, out2)
         \<and> baseline s < real_of_int baseline_limit
         \<and> currentValue s' > real_of_int baseline_limit
         \<and> currentValue s2 > real_of_int baseline_limit \<longrightarrow>
         (if bend_of (currentValue s2) (currentValue s') \<noteq> lastBend s
             \<and> 10 < millis1 t2 - lastMessage s
          then out2 = snd (midi_read (callbacks t2) s') @
                 [DigitalWrite led_pin HIGH,
                  SendPitchBend (bend_of (currentValue s2) (currentValue s'))
                    (lastChannelUsed s2),
                  DigitalWrite led_pin LOW]
          else out2 = snd (midi_read (callbacks t2) s'))))
   \<and> loop b (tick_at 100 1000) (setup_sketch 255 100) =
       Inr (example_touched,
         [DigitalWrite led_pin HIGH, SendPitchBend 0 0, DigitalWrite led_pin LOW])
   \<and> loop b (tick_at 110 1001) example_touched =
       Inr (example_early_bend,
         [DigitalWrite led_pin HIGH, SendPitchBend 1 0, DigitalWrite led_pin LOW])"
proof -
  have start: "lastMessage s' = lastMessage s \<and> lastBend s' = lastBend s"
    if l: "loop b t s = Inr (s', out)"
      and c: "baseline s < real_of_int baseline_limit"
        "currentValue s' > real_of_int baseline_limit"
    using loop_outcome [OF l] c by blast
  have stop: "lastMessage s' = lastMessage s \<and> lastBend s' = lastBend s"
    if l: "loop b t s = Inr (s', out)"
      and c: "\<not> baseline s < real_of_int baseline_limit"
        "currentValue s' \<le> real_of_int baseline_limit"
    using loop_outcome [OF l] c by blast
  have change: "\<not> baseline s < real_of_int baseline_limit
         \<and> currentValue s' > real_of_int baseline_limit
         \<and> out = snd (midi_read (callbacks t) s) @
               [DigitalWrite led_pin HIGH, SendPitchBend (lastBend s') (lastChannelUsed s'),
                DigitalWrite led_pin LOW]
         \<and> lastBend s' = bend_of (currentValue s') (baseline s)
         \<and> lastBend s' \<noteq> lastBend s
         \<and> 10 < millis1 t - lastMessage s
         \<and> lastMessage s' = millis2 t"
    if l: "loop b t s = Inr (s', out)"
      and ch: "lastMessage s' \<noteq> lastMessage s \<or> lastBend s' \<noteq> lastBend s"
  proof -
    note o = loop_outcome [OF l]
    have nb: "\<not> baseline s < real_of_int baseline_limit"
    proof
      assume "baseline s < real_of_int baseline_limit"
      with o have "lastMessage s' = lastMessage s \<and> lastBend s' = lastBend s"
        by (cases "currentValue s' > real_of_int baseline_limit") simp_all
      with ch show False by simp
    qed
    have nc: "\<not> currentValue s' \<le> real_of_int baseline_limit"
    proof
      assume "currentValue s' \<le> real_of_int baseline_limit"
      with o nb have "lastMessage s' = lastMessage s \<and> lastBend s' = lastBend s"
        by simp
      with ch show False by simp
    qed
    from o nb nc have
      i: "(if bend_of (currentValue s') (baseline s) \<noteq> lastBend s
           \<and> 10 < millis1 t - lastMessage s
        then out = snd (midi_read (callbacks t) s) @
               [DigitalWrite led_pin HIGH,
                SendPitchBend (bend_of (currentValue s') (baseline s))
                  (lastChannelUsed s'),
                DigitalWrite led_pin LOW]
             \<and> lastBend s' = bend_of (currentValue s') (baseline s)
             \<and> lastMessage s' = millis2 t
        else out = snd (midi_read (callbacks t) s)
             \<and> lastBend s' = lastBend s \<and> lastMessage s' = lastMessage s)"
      by blast
    have sent: "bend_of (currentValue s') (baseline s) \<noteq> lastBend s
           \<and> 10 < millis1 t - lastMessage s"
    proof (rule ccontr)
      assume "\<not> ?thesis"
      with i have "lastBend s' = lastBend s \<and> lastMessage s' = lastMessage s"
        by (simp split: if_splits)
      with ch show False by simp
    qed
    with i have "out = snd (midi_read (callbacks t) s) @
               [DigitalWrite led_pin HIGH,
                SendPitchBend (bend_of (currentValue s') (baseline s))
                  (lastChannelUsed s'),
                DigitalWrite led_pin LOW]"
      "lastBend s' = bend_of (currentValue s') (baseline s)"
      "lastMessage s' = millis2 t"
      by simp_all
    with sent nb nc show ?thesis
      by simp
  qed
  have two: "(if bend_of (currentValue s2) (currentValue s') \<noteq> lastBend s
             \<and> 10 < millis1 t2 - lastMessage s
          then out2 = snd (midi_read (callbacks t2) s') @
                 [DigitalWrite led_pin HIGH,
                  SendPitchBend (bend_of (currentValue s2) (currentValue s'))
                    (lastChannelUsed s2),
                  DigitalWrite led_pin LOW]
          else out2 = snd (midi_read (callbacks t2) s'))"
    if l: "loop b t s = Inr (s', out)" and l2: "loop b t2 s' = Inr (s2, out2)"
      and c: "baseline s < real_of_int baseline_limit"
        "currentValue s' > real_of_int baseline_limit"
        "currentValue s2 > real_of_int baseline_limit"
    for t2 s2 out2
  proof -
    from loop_outcome [OF l] c have
      b: "baseline s' = currentValue s'" "lastMessage s' = lastMessage s"
        "lastBend s' = lastBend s"
      by simp_all
    from b(1) c(2) have nb: "\<not> baseline s' < real_of_int baseline_limit"
      by simp
    from c(3) have nc: "\<not> currentValue s2 \<le> real_of_int baseline_limit"
      by simp
    from loop_outcome [OF l2] nb nc have
      "(if bend_of (currentValue s2) (baseline s') \<noteq> lastBend s'
           \<and> 10 < millis1 t2 - lastMessage s'
        then out2 = snd (midi_read (callbacks t2) s') @
               [DigitalWrite led_pin HIGH,
                SendPitchBend (bend_of (currentValue s2) (baseline s'))
                  (lastChannelUsed s2),
                DigitalWrite led_pin LOW]
             \<and> lastBend s2 = bend_of (currentValue s2) (baseline s')
             \<and> lastMessage s2 = millis2 t2
        else out2 = snd (midi_read (callbacks t2) s')
             \<and> lastBend s2 = lastBend s' \<and> lastMessage s2 = lastMessage s')"
      by blast
    then show ?thesis
      unfolding b by (simp split: if_splits)
  qed
  have ex: "loop b (tick_at 100 1000) (setup_sketch 255 100) =
       Inr (example_touched,
         [DigitalWrite led_pin HIGH, SendPitchBend 0 0, DigitalWrite led_pin LOW])"
    "loop b (tick_at 110 1001) example_touched =
       Inr (example_early_bend,
         [DigitalWrite led_pin HIGH, SendPitchBend 1 0, DigitalWrite led_pin LOW])"
    by (simp_all add: power_up_values loop_touch loop_early led_pin_def HIGH_def LOW_def)
  from start stop change two ex show ?thesis
    by blast
qed

theorem reset_leaves_throttle_state_witness:
  "loop DoubleConstants (tick_at 100 5000) example_retouch =
     Inr (example_retouched,
       [DigitalWrite led_pin HIGH, SendPitchBend 0 1, DigitalWrite led_pin LOW])
   \<and> baseline example_retouch < real_of_int baseline_limit
   \<and> currentValue example_retouched > real_of_int baseline_limit
   \<and> lastMessage example_retouched = lastMessage example_retouch
   \<and> lastBend example_retouched = lastBend example_retouch
   \<and> lastBend example_retouch = 1
   \<and> loop DoubleConstants (tick_at 110 6000) example_retouched = Inr (example_retouched_moved, [])
   \<and> currentValue example_retouched_moved > real_of_int baseline_limit
   \<and> bend_of (currentValue example_retouched_moved) (currentValue example_retouched)
       = lastBend example_retouch"
proof -
  have direct: "loop DoubleConstants (tick_at 100 5000) example_retouch =
     Inr (example_retouched,
       [DigitalWrite led_pin HIGH, SendPitchBend 0 1, DigitalWrite led_pin LOW])
   \<and> baseline example_retouch < real_of_int baseline_limit
   \<and> currentValue example_retouched > real_of_int baseline_limit
   \<and> lastMessage example_retouched = lastMessage example_retouch
   \<and> lastBend example_retouched = lastBend example_retouch
   \<and> lastBend example_retouch = 1
   \<and> loop DoubleConstants (tick_at 110 6000) example_retouched = Inr (example_retouched_moved, [])
   \<and> currentValue example_retouched_moved > real_of_int baseline_limit
   \<and> bend_of (currentValue example_retouched_moved) (currentValue example_retouched)
       = lastBend example_retouch"
    by (simp add: power_up_values loop_retouch loop_retouch_move led_pin_def HIGH_def LOW_def)
       (simp add: example_retouch_def example_retouched_def example_retouched_moved_def
          powered_up_def baseline_limit_def bend_values)
  show ?thesis
    using reset_leaves_throttle_state
        [where b = DoubleConstants and t = "tick_at 100 5000"
          and s = example_retouch
          and s' = example_retouched
          and out = "[DigitalWrite led_pin HIGH, SendPitchBend 0 1, DigitalWrite led_pin LOW]"]
    by - (rule direct)
qed

subsection \<open>What the slope filter rejects\<close>




end
